theory Spec2Isabelle
  imports Main
begin

section \<open>JavaScript values and errors\<close>

text \<open>
  The program is one Node.js module, \<^verbatim>\<open>src/index.js\<close>. Its values are JavaScript values
  that arrive as JSON: the webhook body, the bodies of the three upstream services and
  the object the model is asked to write.

  \<^item> A string is a \<^typ>\<open>string\<close>: the bytes of its UTF-8 encoding. The program only looks
    for ASCII characters (backtick, braces, letters) and for white space, and every
    index it computes is only compared with another index or used to cut the same
    string, so the byte positions stand for the code-unit positions of JavaScript.
  \<^item> A number is an \<^typ>\<open>int\<close>: the integer-valued doubles below \<open>2^53\<close>, on which
    the arithmetic of the program is exact (milliseconds since the epoch, seconds of
    token lifetime, lengths).
  \<^item> An object is the list of its own properties in insertion order, with distinct keys.
\<close>

datatype jsvalue =
    JUndefined
  | JNull
  | JBool bool
  | JNum int
  | JStr string
  | JArr "jsvalue list"
  | JObj "(string \<times> jsvalue) list"

text \<open>
  What a \<^verbatim>\<open>throw\<close> carries: \<open>Error msg\<close> is \<^verbatim>\<open>new Error(msg)\<close> of the program itself;
  \<open>TypeError\<close> and \<open>SyntaxError\<close> are raised by the runtime (a property read on
  \<^verbatim>\<open>null\<close> or \<^verbatim>\<open>undefined\<close>, a method call on a value that has no such method, a
  rejected \<^verbatim>\<open>fetch\<close>; a body that is not JSON). A function that can throw returns
  \<open>js_error + 'a\<close>, with \<open>Inl\<close> for the error.
\<close>

datatype js_error = Error string | TypeError | SyntaxError

definition thenE :: "js_error + 'a \<Rightarrow> ('a \<Rightarrow> js_error + 'b) \<Rightarrow> js_error + 'b" where
  "thenE m f = (case m of Inl e \<Rightarrow> Inl e | Inr x \<Rightarrow> f x)"

text \<open>ToBoolean: the falsy values are \<^verbatim>\<open>undefined\<close>, \<^verbatim>\<open>null\<close>, \<^verbatim>\<open>false\<close>, \<^verbatim>\<open>0\<close> and \<^verbatim>\<open>""\<close>.\<close>

fun truthy :: "jsvalue \<Rightarrow> bool" where
  "truthy JUndefined = False"
| "truthy JNull = False"
| "truthy (JBool b) = b"
| "truthy (JNum n) = (n \<noteq> 0)"
| "truthy (JStr s) = (s \<noteq> [])"
| "truthy (JArr xs) = True"
| "truthy (JObj ps) = True"

text \<open>
  The \<^verbatim>\<open>length\<close> of a string counts UTF-16 code units: one for every code point, two
  for a code point outside the basic plane (a four-byte sequence in UTF-8).
\<close>

definition utf16_length :: "string \<Rightarrow> nat" where
  "utf16_length s =
     length (filter (\<lambda>c. \<not> (128 \<le> (of_char c :: nat) \<and> (of_char c :: nat) < 192)) s)
     + length (filter (\<lambda>c. 240 \<le> (of_char c :: nat)) s)"

text \<open>
  A property read \<^verbatim>\<open>v.k\<close>, for the keys the program reads (\<^verbatim>\<open>subject\<close>, \<^verbatim>\<open>preheader\<close>,
  \<^verbatim>\<open>htmlBody\<close>, \<^verbatim>\<open>errors\<close>, \<^verbatim>\<open>length\<close>), none of which a prototype defines except
  \<^verbatim>\<open>length\<close> on strings and arrays. On \<^verbatim>\<open>null\<close> and \<^verbatim>\<open>undefined\<close> the read throws.
\<close>

fun get_prop :: "jsvalue \<Rightarrow> string \<Rightarrow> js_error + jsvalue" where
  "get_prop JUndefined k = Inl TypeError"
| "get_prop JNull k = Inl TypeError"
| "get_prop (JObj ps) k = Inr (case map_of ps k of Some v \<Rightarrow> v | None \<Rightarrow> JUndefined)"
| "get_prop (JArr xs) k = Inr (if k = ''length'' then JNum (int (length xs)) else JUndefined)"
| "get_prop (JStr s) k = Inr (if k = ''length'' then JNum (int (utf16_length s)) else JUndefined)"
| "get_prop (JBool b) k = Inr JUndefined"
| "get_prop (JNum n) k = Inr JUndefined"

section \<open>String operations of the runtime\<close>

text \<open>
  The code points that \<^verbatim>\<open>String.prototype.trim\<close> removes and that \<^verbatim>\<open>\s\<close> matches
  (WhiteSpace and LineTerminator of ECMAScript), each as its UTF-8 byte sequence:
  U+0009 to U+000D, U+0020, U+00A0, U+1680, U+2000 to U+200A, U+2028, U+2029, U+202F,
  U+205F, U+3000 and U+FEFF.
\<close>

definition white_space :: "string list" where
  "white_space =
     [[CHR 0x09], [CHR 0x0A], [CHR 0x0B], [CHR 0x0C], [CHR 0x0D], [CHR 0x20],
      [CHR 0xC2, CHR 0xA0],
      [CHR 0xE1, CHR 0x9A, CHR 0x80],
      [CHR 0xE2, CHR 0x80, CHR 0x80], [CHR 0xE2, CHR 0x80, CHR 0x81],
      [CHR 0xE2, CHR 0x80, CHR 0x82], [CHR 0xE2, CHR 0x80, CHR 0x83],
      [CHR 0xE2, CHR 0x80, CHR 0x84], [CHR 0xE2, CHR 0x80, CHR 0x85],
      [CHR 0xE2, CHR 0x80, CHR 0x86], [CHR 0xE2, CHR 0x80, CHR 0x87],
      [CHR 0xE2, CHR 0x80, CHR 0x88], [CHR 0xE2, CHR 0x80, CHR 0x89],
      [CHR 0xE2, CHR 0x80, CHR 0x8A],
      [CHR 0xE2, CHR 0x80, CHR 0xA8], [CHR 0xE2, CHR 0x80, CHR 0xA9],
      [CHR 0xE2, CHR 0x80, CHR 0xAF],
      [CHR 0xE2, CHR 0x81, CHR 0x9F],
      [CHR 0xE3, CHR 0x80, CHR 0x80],
      [CHR 0xEF, CHR 0xBB, CHR 0xBF]]"

definition startsWith :: "string \<Rightarrow> string \<Rightarrow> bool" where
  "startsWith s p = (take (length p) s = p)"

definition endsWith :: "string \<Rightarrow> string \<Rightarrow> bool" where
  "endsWith s p = startsWith (rev s) (rev p)"

text \<open>The length of the first of the sequences \<open>ws\<close> that \<open>s\<close> starts with, 0 when none.\<close>

definition match_len :: "string list \<Rightarrow> string \<Rightarrow> nat" where
  "match_len ws s = (case find (startsWith s) ws of None \<Rightarrow> 0 | Some w \<Rightarrow> length w)"

function skip :: "string list \<Rightarrow> string \<Rightarrow> string" where
  "skip ws s = (if match_len ws s = 0 \<or> s = [] then s else skip ws (drop (match_len ws s) s))"
  by pat_completeness auto
termination
  by (relation "measure (\<lambda>(ws, s). length s)") auto

declare skip.simps [simp del]

definition trimStart :: "string \<Rightarrow> string" where
  "trimStart s = skip white_space s"

definition trimEnd :: "string \<Rightarrow> string" where
  "trimEnd s = rev (skip (map rev white_space) (rev s))"

definition trim :: "string \<Rightarrow> string" where
  "trim s = trimEnd (trimStart s)"

text \<open>\<^verbatim>\<open>[a-zA-Z]\<close> of a regular expression without flags: the ASCII letters.\<close>

definition is_letter :: "char \<Rightarrow> bool" where
  "is_letter c = ((97 \<le> (of_char c :: nat) \<and> (of_char c :: nat) \<le> 122)
                \<or> (65 \<le> (of_char c :: nat) \<and> (of_char c :: nat) \<le> 90))"

text \<open>
  \<^verbatim>\<open>s.indexOf(c)\<close> and \<^verbatim>\<open>s.lastIndexOf(c)\<close> for a one-character \<open>c\<close>: the position of
  its first and of its last occurrence, \<open>-1\<close> when it does not occur.
\<close>

fun indexOf :: "string \<Rightarrow> char \<Rightarrow> int" where
  "indexOf [] c = - 1"
| "indexOf (x # xs) c =
     (if x = c then 0 else if indexOf xs c = - 1 then - 1 else indexOf xs c + 1)"

definition lastIndexOf :: "string \<Rightarrow> char \<Rightarrow> int" where
  "lastIndexOf s c =
     (if indexOf (rev s) c = - 1 then - 1 else int (length s) - 1 - indexOf (rev s) c)"

text \<open>
  \<^verbatim>\<open>s.slice(a, b)\<close>: a negative index counts from the end, both are clamped to the
  string, and the result is empty when the end is not after the start.
\<close>

definition slice :: "string \<Rightarrow> int \<Rightarrow> int \<Rightarrow> string" where
  "slice s a b =
     (let n = int (length s);
          from = (if a < 0 then max (n + a) 0 else min a n);
          to = (if b < 0 then max (n + b) 0 else min b n)
      in take (nat (to - from)) (drop (nat from) s))"

section \<open>Extraction of the e-mail from the model's text\<close>

text \<open>
  \<^verbatim>\<open>generateEmailWithAI\<close>, lines 208 to 244, in the three steps its comments name.
  \<^verbatim>\<open>JSON.parse\<close> belongs to the runtime and is a parameter: \<open>None\<close> is its
  \<^verbatim>\<open>SyntaxError\<close>.

  Step 1 (lines 210 to 215). \<^verbatim>\<open>content.replace(/^```[a-zA-Z]*\s*/, '')\<close> removes, at
  the very start of \<open>content\<close>, three backticks, the letters after them and the white
  space after these; \<^verbatim>\<open>content.replace(/```$/, '')\<close> removes three backticks at the
  very end. Both leave a text that does not match unchanged.
\<close>

definition strip_opening_fence :: "string \<Rightarrow> string" where
  "strip_opening_fence s =
     (if startsWith s ''```'' then trimStart (dropWhile is_letter (drop 3 s)) else s)"

definition strip_closing_fence :: "string \<Rightarrow> string" where
  "strip_closing_fence s = (if endsWith s ''```'' then take (length s - 3) s else s)"

definition cleanup_step1 :: "string \<Rightarrow> string" where
  "cleanup_step1 content =
     (if startsWith (trim content) ''```''
      then trim (strip_closing_fence (strip_opening_fence content))
      else content)"

text \<open>Step 2 (lines 218 to 226): the text from the first \<^verbatim>\<open>{\<close> to the last \<^verbatim>\<open>}\<close>.\<close>

definition no_json_object :: js_error where
  "no_json_object = Error ''OpenAI output bevat geen geldig JSON-object''"

definition cleanup_step2 :: "string \<Rightarrow> js_error + string" where
  "cleanup_step2 content =
     (let firstCurly = indexOf content (CHR ''{'');
          lastCurly = lastIndexOf content (CHR ''}'')
      in if firstCurly = - 1 \<or> lastCurly = - 1 \<or> lastCurly \<le> firstCurly
         then Inl no_json_object
         else Inr (slice content firstCurly (lastCurly + 1)))"

text \<open>
  Lines 228 to 244: parse the slice, then require the three fields. The reads of
  \<^verbatim>\<open>parsed.subject\<close>, \<^verbatim>\<open>parsed.preheader\<close> and \<^verbatim>\<open>parsed.htmlBody\<close> stand outside the
  \<^verbatim>\<open>try\<close>, left to right under \<^verbatim>\<open>||\<close>.
\<close>

definition not_pure_json :: js_error where
  "not_pure_json = Error ''OpenAI output is geen zuiver JSON (zie logs voor details)''"

definition missing_fields :: js_error where
  "missing_fields = Error ''OpenAI JSON mist subject/preheader/htmlBody''"

definition check_fields :: "jsvalue \<Rightarrow> js_error + jsvalue" where
  "check_fields parsed =
     thenE (get_prop parsed ''subject'') (\<lambda>subject.
       if \<not> truthy subject then Inl missing_fields
       else thenE (get_prop parsed ''preheader'') (\<lambda>preheader.
         if \<not> truthy preheader then Inl missing_fields
         else thenE (get_prop parsed ''htmlBody'') (\<lambda>htmlBody.
           if \<not> truthy htmlBody then Inl missing_fields
           else Inr parsed)))"

definition parse_slice :: "(string \<Rightarrow> jsvalue option) \<Rightarrow> string \<Rightarrow> js_error + jsvalue" where
  "parse_slice JSON_parse jsonSlice =
     (case JSON_parse jsonSlice of
        None \<Rightarrow> Inl not_pure_json
      | Some parsed \<Rightarrow> check_fields parsed)"

definition extract_email :: "(string \<Rightarrow> jsvalue option) \<Rightarrow> string \<Rightarrow> js_error + jsvalue" where
  "extract_email JSON_parse content =
     thenE (cleanup_step2 (cleanup_step1 content)) (parse_slice JSON_parse)"

section \<open>The Marketo token cache\<close>

text \<open>
  What the process sends upstream, in order: the trace by which a theorem says that a
  service was or was not called. The token exchange is a \<^verbatim>\<open>GET\<close> whose address is built
  from the configuration alone; a chat completion carries the system and the user prompt;
  a lead update carries the bearer token and the request body before \<^verbatim>\<open>JSON.stringify\<close>.
\<close>

datatype call =
    TokenExchange
  | ChatCompletion string string
  | LeadUpdate jsvalue jsvalue

text \<open>
  The module's two variables \<^verbatim>\<open>marketoToken\<close> (initially \<^verbatim>\<open>null\<close>) and
  \<^verbatim>\<open>marketoTokenExpiresAt\<close> (initially 0), and the trace.
\<close>

record state =
  marketoToken :: jsvalue
  marketoTokenExpiresAt :: int
  calls :: "call list"

definition initial_state :: state where
  "initial_state = \<lparr>marketoToken = JNull, marketoTokenExpiresAt = 0, calls = []\<rparr>"

text \<open>
  The answer of the identity endpoint: \<^verbatim>\<open>fetch\<close> rejects; the status is not a success;
  the status is a success but \<^verbatim>\<open>res.json()\<close> rejects or the body is \<^verbatim>\<open>null\<close>, so that
  reading \<^verbatim>\<open>data.access_token\<close> throws the given error; or the status is a success and the
  body has the shape the program expects, \<^verbatim>\<open>{access_token, expires_in}\<close> with an integer
  number of seconds (\<^verbatim>\<open>access_token\<close> is whatever value the body holds there,
  \<^verbatim>\<open>undefined\<close> when it holds none).
\<close>

datatype token_reply =
    TokenUnreachable
  | TokenRefused
  | TokenGarbled js_error
  | TokenGranted jsvalue int

definition token_error :: js_error where
  "token_error = Error ''Failed to get Marketo access token''"

text \<open>\<^verbatim>\<open>getMarketoAccessToken\<close>, lines 36 to 61; \<open>now\<close> is \<^verbatim>\<open>Date.now()\<close>.\<close>

definition getMarketoAccessToken :: "int \<Rightarrow> token_reply \<Rightarrow> state \<Rightarrow> (js_error + jsvalue) \<times> state" where
  "getMarketoAccessToken now reply s =
     (if truthy (marketoToken s) \<and> now < marketoTokenExpiresAt s
      then (Inr (marketoToken s), s)
      else
        let s1 = s\<lparr>calls := calls s @ [TokenExchange]\<rparr> in
        case reply of
          TokenUnreachable \<Rightarrow> (Inl TypeError, s1)
        | TokenRefused \<Rightarrow> (Inl token_error, s1)
        | TokenGarbled e \<Rightarrow> (Inl e, s1)
        | TokenGranted access_token expires_in \<Rightarrow>
            (Inr access_token,
             s1\<lparr>marketoToken := access_token,
                marketoTokenExpiresAt := now + (expires_in - 300) * 1000\<rparr>))"

section \<open>The lead update\<close>

text \<open>
  The answer of the lead endpoint: \<^verbatim>\<open>fetch\<close> rejects, or a response with \<^verbatim>\<open>res.ok\<close> and
  what \<^verbatim>\<open>res.json()\<close> gives: the parsed body, \<open>None\<close> when the body is not JSON.
\<close>

datatype update_reply =
    UpdateUnreachable
  | UpdateResponse bool "jsvalue option"

definition update_error :: js_error where
  "update_error = Error ''Failed to update Marketo lead''"

text \<open>The test \<^verbatim>\<open>(data && data.errors && data.errors.length)\<close> of line 89, as a condition.\<close>

definition carries_errors :: "jsvalue \<Rightarrow> js_error + bool" where
  "carries_errors data =
     (if \<not> truthy data then Inr False
      else thenE (get_prop data ''errors'') (\<lambda>errors.
        if \<not> truthy errors then Inr False
        else thenE (get_prop errors ''length'') (\<lambda>len. Inr (truthy len))))"

text \<open>
  The object literal \<^verbatim>\<open>{ id: marketoLeadId, ...fields }\<close>: a key that is already there
  keeps its place and takes the new value, a new key goes to the end.
\<close>

fun set_prop :: "(string \<times> jsvalue) list \<Rightarrow> string \<times> jsvalue \<Rightarrow> (string \<times> jsvalue) list" where
  "set_prop [] (k, v) = [(k, v)]"
| "set_prop ((k', v') # ps) (k, v) = (if k' = k then (k, v) # ps else (k', v') # set_prop ps (k, v))"

definition update_body :: "jsvalue \<Rightarrow> (string \<times> jsvalue) list \<Rightarrow> jsvalue" where
  "update_body marketoLeadId lead_fields =
     JObj [(''action'', JStr ''updateOnly''),
           (''lookupField'', JStr ''id''),
           (''input'', JArr [JObj (foldl set_prop [(''id'', marketoLeadId)] lead_fields)])]"

text \<open>\<^verbatim>\<open>updateMarketoLead\<close>, lines 63 to 95.\<close>

definition updateMarketoLead ::
  "int \<Rightarrow> token_reply \<Rightarrow> update_reply \<Rightarrow> jsvalue \<Rightarrow> (string \<times> jsvalue) list \<Rightarrow> state
   \<Rightarrow> (js_error + jsvalue) \<times> state" where
  "updateMarketoLead now token_answer update_answer marketoLeadId lead_fields s =
     (case getMarketoAccessToken now token_answer s of
        (Inl e, s1) \<Rightarrow> (Inl e, s1)
      | (Inr token, s1) \<Rightarrow>
          let s2 = s1\<lparr>calls := calls s1 @ [LeadUpdate token (update_body marketoLeadId lead_fields)]\<rparr> in
          case update_answer of
            UpdateUnreachable \<Rightarrow> (Inl TypeError, s2)
          | UpdateResponse ok None \<Rightarrow> (Inl SyntaxError, s2)
          | UpdateResponse ok (Some data) \<Rightarrow>
              if \<not> ok then (Inl update_error, s2)
              else case carries_errors data of
                     Inl e \<Rightarrow> (Inl e, s2)
                   | Inr True \<Rightarrow> (Inl update_error, s2)
                   | Inr False \<Rightarrow> (Inr data, s2))"

section \<open>Prompts\<close>

text \<open>
  The catalogue \<^verbatim>\<open>BASE_DATA\<close> has one entry. A read \<^verbatim>\<open>BASE_DATA[key]\<close> finds that entry,
  or a member that every object inherits from \<^verbatim>\<open>Object.prototype\<close> (a function or an
  object: truthy, and without the four fields of an entry), or nothing.
\<close>

record base_content =
  productName :: string
  coreBenefits :: "string list"
  primaryCTA :: string
  ctaUrl :: string

definition VC_BASE_V1 :: base_content where
  "VC_BASE_V1 =
     \<lparr>productName = ''Voice Cloud'',
      coreBenefits =
        [''Altijd bereikbaar, ook als je niet op kantoor bent'',
         ''Eenvoudige bediening via app en web'',
         ''Schaalbaar per medewerker, groei mee met je zaak''],
      primaryCTA = ''Plan een gratis demo'',
      ctaUrl = ''https://www2.telenet.be/business/nl/voice-cloud/demo''\<rparr>"

datatype base_lookup = OwnEntry base_content | Inherited | NoEntry

definition object_prototype_keys :: "string list" where
  "object_prototype_keys =
     [''constructor'', ''__defineGetter__'', ''__defineSetter__'', ''hasOwnProperty'',
      ''__lookupGetter__'', ''__lookupSetter__'', ''isPrototypeOf'', ''propertyIsEnumerable'',
      ''toString'', ''valueOf'', ''__proto__'', ''toLocaleString'']"

definition BASE_DATA :: "string \<Rightarrow> base_lookup" where
  "BASE_DATA key =
     (if key = ''VC_BASE_V1'' then OwnEntry VC_BASE_V1
      else if key \<in> set object_prototype_keys then Inherited
      else NoEntry)"

text \<open>A default parameter or binding \<^verbatim>\<open>x = d\<close>: \<open>d\<close> only when the field is absent.\<close>

definition default_to :: "string option \<Rightarrow> string \<Rightarrow> string" where
  "default_to x d = (case x of None \<Rightarrow> d | Some v \<Rightarrow> v)"

text \<open>
  The fields of a request are strings or absent (\<open>None\<close> is \<^verbatim>\<open>undefined\<close>), as the
  data model of the specification has them. \<^verbatim>\<open>x || d\<close> on such a field: \<open>d\<close> when the field
  is absent or empty. \<open>js_of\<close> is the field as a JavaScript value.
\<close>

definition js_of :: "string option \<Rightarrow> jsvalue" where
  "js_of x = (case x of None \<Rightarrow> JUndefined | Some v \<Rightarrow> JStr v)"

definition or_else :: "string option \<Rightarrow> string \<Rightarrow> string" where
  "or_else x d = (if truthy (js_of x) then default_to x d else d)"

definition dutch_system_prompt :: string where
  "dutch_system_prompt =
     ''\<newline>'' @
     ''Je bent een e-mailcopywriter voor Telenet Business.\<newline>'' @
     ''Je schrijft in het Nederlands, professioneel maar vlot, duidelijk en kort.\<newline>'' @
     ''Gebruik maximaal 120 tekens voor de subject line en 120 tekens voor de preheader.\<newline>'' @
     ''Gebruik eenvoudige HTML met inline styles, zonder <style> of <script>.\<newline>'' @
     ''Gebruik {{lead.First Name}} als placeholder voor de voornaam.\<newline>'' @
     ''De e-mail is bedoeld om leads te overtuigen een volgende stap te zetten.\<newline>'' @
     ''Output ALTIJD exact in geldig JSON-formaat ('' @ [CHR 0xC3, CHR 0xA9, CHR 0xC3, CHR 0xA9] @
     ''n object), zonder extra tekst.''"

definition english_system_prompt :: string where
  "english_system_prompt =
     ''\<newline>'' @
     ''You are an email copywriter for Telenet Business.\<newline>'' @
     ''Write in clear, concise, professional language.\<newline>'' @
     ''Max 120 characters for subject and 120 for preheader.\<newline>'' @
     ''Use simple HTML with inline styles only, no <style> or <script>.\<newline>'' @
     ''Use {{lead.First Name}} as the placeholder for the first name.\<newline>'' @
     ''Output MUST be a single valid JSON object, nothing else.''"

text \<open>\<^verbatim>\<open>buildSystemPrompt\<close>, lines 99 to 118.\<close>

definition buildSystemPrompt :: "string option \<Rightarrow> string" where
  "buildSystemPrompt language =
     (if default_to language ''nl'' = ''nl'' then dutch_system_prompt else english_system_prompt)"

text \<open>Decimal digits of a number, and \<^verbatim>\<open>Array.prototype.join\<close>.\<close>

fun show_nat :: "nat \<Rightarrow> string" where
  "show_nat n =
     (if n < 10 then [char_of (48 + n)] else show_nat (n div 10) @ [char_of (48 + n mod 10)])"

declare show_nat.simps [simp del]

fun join :: "string list \<Rightarrow> string \<Rightarrow> string" where
  "join [] sep = []"
| "join [x] sep = x"
| "join (x # y # ys) sep = x @ sep @ join (y # ys) sep"

record user_prompt_args =
  u_sector :: "string option"
  u_employeeCount :: "string option"
  u_jobTitle :: "string option"
  u_language :: "string option"
  u_base :: base_content

text \<open>\<^verbatim>\<open>buildUserPrompt\<close>, lines 120 to 155, one piece for each line of the template.\<close>

definition buildUserPrompt :: "user_prompt_args \<Rightarrow> string" where
  \<open>buildUserPrompt a =
     ''\<newline>'' @
     ''Schrijf een commerci'' @ [CHR 0xC3, CHR 0xAB] @ ''le e-mail voor een lead met deze kenmerken:\<newline>'' @
     ''- Sector: '' @ or_else (u_sector a) ''onbekend'' @ ''\<newline>'' @
     ''- Aantal werknemers: '' @ or_else (u_employeeCount a) ''onbekend'' @ ''\<newline>'' @
     ''- Jobtitel: '' @ or_else (u_jobTitle a) ''onbekend'' @ ''\<newline>'' @
     ''- Taal: '' @ or_else (u_language a) ''nl'' @ ''\<newline>'' @
     ''\<newline>'' @
     ''De e-mail gaat over het product "'' @ productName (u_base a) @ ''".\<newline>'' @
     ''\<newline>'' @
     ''Belangrijkste voordelen die in de e-mail moeten terugkomen (vertaal en herschrijf in jouw eigen woorden):\<newline>'' @
     join (map (\<lambda>(i, b). ''  '' @ show_nat (i + 1) @ ''. '' @ b) (enumerate 0 (coreBenefits (u_base a)))) ''\<newline>'' @
     ''\<newline>'' @
     ''\<newline>'' @
     ''Call-to-action:\<newline>'' @
     ''- Tekst: '' @ primaryCTA (u_base a) @ ''\<newline>'' @
     ''- Url: '' @ ctaUrl (u_base a) @ ''\<newline>'' @
     ''\<newline>'' @
     ''Structuur van de e-mail:\<newline>'' @
     ''- Aanspreking met {{lead.First Name}}\<newline>'' @
     ''- 1 korte intro die inspeelt op sector en jobtitel\<newline>'' @
     ''- 2 '' @ [CHR 0xC3, CHR 0xA0] @ '' 3 korte alinea's met voordelen\<newline>'' @
     ''- 1 duidelijke call-to-action button met link naar '' @ ctaUrl (u_base a) @ ''\<newline>'' @
     ''- Eventueel 1 korte afsluiter\<newline>'' @
     ''\<newline>'' @
     ''BELANGRIJK:\<newline>'' @
     ''Geef de output als '' @ [CHR 0xC3, CHR 0xA9, CHR 0xC3, CHR 0xA9] @ ''n JSON-object met deze structuur:\<newline>'' @
     ''\<newline>'' @
     ''{\<newline>'' @
     ''  "subject": "'' @ [CHR 0xE2, CHR 0x80, CHR 0xA6] @ ''",\<newline>'' @
     ''  "preheader": "'' @ [CHR 0xE2, CHR 0x80, CHR 0xA6] @ ''",\<newline>'' @
     ''  "htmlBody": "<!DOCTYPE html>'' @ [CHR 0xE2, CHR 0x80, CHR 0xA6] @ ''</html>"\<newline>'' @
     ''}\<newline>'' @
     ''\<newline>'' @
     ''Zorg dat htmlBody volledige, geldige HTML bevat (met <html>, <body>, '' @ [CHR 0xE2, CHR 0x80, CHR 0xA6] @ '').\<newline>'' @
     ''Geen extra tekst rond de JSON, geen uitleg. Enkel het JSON-object.''\<close>

section \<open>Generation\<close>

text \<open>
  The answer of the completion endpoint: \<^verbatim>\<open>fetch\<close> rejects; the status is not a success;
  the status is a success but \<^verbatim>\<open>res.json()\<close> rejects or the read of
  \<^verbatim>\<open>data.choices[0].message.content\<close> throws the given error; or that read gives a value,
  a string when the service keeps to its interface.
\<close>

datatype completion_reply =
    ModelUnreachable
  | ModelRefused
  | ModelGarbled js_error
  | ModelContent jsvalue

record generate_args =
  g_sector :: "string option"
  g_employeeCount :: "string option"
  g_jobTitle :: "string option"
  g_language :: "string option"
  g_baseDataId :: "string option"

definition openai_error :: js_error where
  "openai_error = Error ''Failed to call OpenAI''"

text \<open>
  \<^verbatim>\<open>generateEmailWithAI\<close>, lines 158 to 245. An absent \<^verbatim>\<open>baseDataId\<close> reads the key
  \<^verbatim>\<open>"undefined"\<close>. With an inherited member for \<^verbatim>\<open>base\<close> the call of
  \<^verbatim>\<open>base.coreBenefits.map\<close> in \<^verbatim>\<open>buildUserPrompt\<close> throws before anything is sent. A
  \<^verbatim>\<open>content\<close> that is not a string has no \<^verbatim>\<open>trim\<close>.
\<close>

definition generateEmailWithAI ::
  "(string \<Rightarrow> jsvalue option) \<Rightarrow> completion_reply \<Rightarrow> generate_args \<Rightarrow> state
   \<Rightarrow> (js_error + jsvalue) \<times> state" where
  "generateEmailWithAI JSON_parse answer a s =
     (let language = Some (default_to (g_language a) ''nl'');
          key = default_to (g_baseDataId a) ''undefined''
      in case BASE_DATA key of
        NoEntry \<Rightarrow> (Inl (Error (''Onbekende baseDataId: '' @ key)), s)
      | Inherited \<Rightarrow> (Inl TypeError, s)
      | OwnEntry b \<Rightarrow>
          let systemPrompt = buildSystemPrompt language;
              userPrompt = buildUserPrompt
                \<lparr>u_sector = g_sector a, u_employeeCount = g_employeeCount a,
                 u_jobTitle = g_jobTitle a, u_language = language, u_base = b\<rparr>;
              s1 = s\<lparr>calls := calls s @ [ChatCompletion systemPrompt userPrompt]\<rparr>
          in case answer of
               ModelUnreachable \<Rightarrow> (Inl TypeError, s1)
             | ModelRefused \<Rightarrow> (Inl openai_error, s1)
             | ModelGarbled e \<Rightarrow> (Inl e, s1)
             | ModelContent (JStr content) \<Rightarrow> (extract_email JSON_parse content, s1)
             | ModelContent other \<Rightarrow> (Inl TypeError, s1))"

section \<open>The webhook\<close>

text \<open>
  The environment of one request: the secret of the configuration (\<open>None\<close> when the
  variable is not set), the clock, the answers the three services would give, and the
  runtime's parser.
\<close>

record world =
  WEBHOOK_SECRET :: "string option"
  w_now :: int
  w_token :: token_reply
  w_completion :: completion_reply
  w_update :: update_reply
  w_parse :: "string \<Rightarrow> jsvalue option"

text \<open>
  A request: the header \<^verbatim>\<open>x-webhook-key\<close> and the fields of the JSON body, which
  \<^verbatim>\<open>express.json()\<close> has parsed into an object.
\<close>

record request =
  x_webhook_key :: "string option"
  r_email :: "string option"
  r_marketoLeadId :: "string option"
  r_sector :: "string option"
  r_employeeCount :: "string option"
  r_jobTitle :: "string option"
  r_language :: "string option"
  r_baseDataId :: "string option"

text \<open>
  The response: status 401 with \<^verbatim>\<open>{error: 'Unauthorized'}\<close>, status 400 with
  \<^verbatim>\<open>{error: 'marketoLeadId is verplicht'}\<close>, status 500 with the message of the error that
  was caught, or status 200 with \<^verbatim>\<open>{success: true, message, aiEmail, marketo}\<close>.
\<close>

datatype response =
    Unauthorized
  | BadRequest
  | ServerError js_error
  | Success jsvalue jsvalue

definition fieldsToUpdate :: "jsvalue \<Rightarrow> string \<Rightarrow> js_error + (string \<times> jsvalue) list" where
  "fieldsToUpdate aiEmail language =
     thenE (get_prop aiEmail ''subject'') (\<lambda>subject.
     thenE (get_prop aiEmail ''preheader'') (\<lambda>preheader.
     thenE (get_prop aiEmail ''htmlBody'') (\<lambda>htmlBody.
       Inr [(''AI_Email_Subject__c'', subject),
            (''AI_Email_Preheader__c'', preheader),
            (''AI_Email_Body_HTML__c'', htmlBody),
            (''AI_Email_Language__c'', JStr language),
            (''AI_Email_Ready__c'', JBool True)])))"

text \<open>
  The handler of \<^verbatim>\<open>POST /webhooks/ai-email\<close>, lines 254 to 303: first the call of
  \<^verbatim>\<open>generateEmailWithAI\<close> as the handler makes it (lines 261 to 281, with the two
  defaults of the destructuring), then the whole handler around it.
\<close>

definition handler_generate :: "world \<Rightarrow> request \<Rightarrow> state \<Rightarrow> (js_error + jsvalue) \<times> state" where
  "handler_generate w req s =
     generateEmailWithAI (w_parse w) (w_completion w)
       \<lparr>g_sector = r_sector req, g_employeeCount = r_employeeCount req,
        g_jobTitle = r_jobTitle req,
        g_language = Some (default_to (r_language req) ''nl''),
        g_baseDataId = Some (default_to (r_baseDataId req) ''VC_BASE_V1'')\<rparr> s"

definition webhook :: "world \<Rightarrow> request \<Rightarrow> state \<Rightarrow> response \<times> state" where
  "webhook w req s =
     (if truthy (js_of (WEBHOOK_SECRET w)) \<and> x_webhook_key req \<noteq> WEBHOOK_SECRET w
      then (Unauthorized, s)
      else if \<not> truthy (js_of (r_marketoLeadId req)) then (BadRequest, s)
      else
        case handler_generate w req s of
          (Inl e, s1) \<Rightarrow> (ServerError e, s1)
        | (Inr aiEmail, s1) \<Rightarrow>
            (case fieldsToUpdate aiEmail (default_to (r_language req) ''nl'') of
               Inl e \<Rightarrow> (ServerError e, s1)
             | Inr lead_fields \<Rightarrow>
                 (case updateMarketoLead (w_now w) (w_token w) (w_update w)
                         (js_of (r_marketoLeadId req)) lead_fields s1 of
                    (Inl e, s2) \<Rightarrow> (ServerError e, s2)
                  | (Inr mktoResponse, s2) \<Rightarrow> (Success aiEmail mktoResponse, s2))))"

text \<open>The calls made between a state and a later one.\<close>

definition sent :: "state \<Rightarrow> state \<Rightarrow> call list" where
  "sent s s' = drop (length (calls s)) (calls s')"

section \<open>Sample texts\<close>

text \<open>
  The clean model output of the specification's scenarios and the object it denotes; the
  same output with an empty subject, and without its body; and a parser that knows these
  three texts (and rejects every other): the runtime's parser at the inputs of the
  examples below.
\<close>

definition clean_text :: string where
  \<open>clean_text = ''{"subject":"S","preheader":"P","htmlBody":"<html></html>"}''\<close>

definition clean_object :: jsvalue where
  "clean_object =
     JObj [(''subject'', JStr ''S''), (''preheader'', JStr ''P''),
           (''htmlBody'', JStr ''<html></html>'')]"

definition empty_subject_text :: string where
  \<open>empty_subject_text = ''{"subject":"","preheader":"P","htmlBody":"<html></html>"}''\<close>

definition empty_subject_object :: jsvalue where
  "empty_subject_object =
     JObj [(''subject'', JStr []), (''preheader'', JStr ''P''),
           (''htmlBody'', JStr ''<html></html>'')]"

definition no_body_text :: string where
  \<open>no_body_text = ''{"subject":"S","preheader":"P"}''\<close>

definition no_body_object :: jsvalue where
  "no_body_object = JObj [(''subject'', JStr ''S''), (''preheader'', JStr ''P'')]"

definition sample_parse :: "string \<Rightarrow> jsvalue option" where
  "sample_parse =
     map_of [(clean_text, clean_object), (empty_subject_text, empty_subject_object),
             (no_body_text, no_body_object)]"

text \<open>The clean output inside a code fence with a language tag, and with prose around it.\<close>

definition fenced_text :: string where
  "fenced_text = ''```json\<newline>'' @ clean_text @ ''\<newline>```''"



section \<open>Sample requests\<close>

text \<open>
  The end-to-end scenario of the specification: the request
  \<^verbatim>\<open>{marketoLeadId: "42", sector: "Retail", jobTitle: "CFO", language: "nl"}\<close> with the
  right key, a model that answers with the fenced clean output, an identity endpoint
  that grants a token, and a lead endpoint that answers 200 without \<^verbatim>\<open>errors\<close>. The
  other bodies are answers of the lead endpoint that carry \<^verbatim>\<open>errors\<close>.
\<close>

definition update_ok_body :: jsvalue where
  "update_ok_body =
     JObj [(''requestId'', JStr ''e42b#14272d07d78''), (''success'', JBool True),
           (''result'', JArr [JObj [(''id'', JNum 42), (''status'', JStr ''updated'')]])]"

definition update_errors_body :: jsvalue where
  "update_errors_body =
     JObj [(''requestId'', JStr ''e42b#14272d07d78''), (''success'', JBool False),
           (''errors'', JArr [JObj [(''code'', JStr ''601''),
                                    (''message'', JStr ''Access token invalid'')]])]"

definition sample_world :: world where
  "sample_world =
     \<lparr>WEBHOOK_SECRET = Some ''s3cret'',
      w_now = 1700000000000,
      w_token = TokenGranted (JStr ''tok'') 3599,
      w_completion = ModelContent (JStr fenced_text),
      w_update = UpdateResponse True (Some update_ok_body),
      w_parse = sample_parse\<rparr>"

definition sample_request :: request where
  "sample_request =
     \<lparr>x_webhook_key = Some ''s3cret'',
      r_email = None,
      r_marketoLeadId = Some ''42'',
      r_sector = Some ''Retail'',
      r_employeeCount = None,
      r_jobTitle = Some ''CFO'',
      r_language = Some ''nl'',
      r_baseDataId = None\<rparr>"

text \<open>The chat completion and the lead update of that scenario, for a given language.\<close>

definition sample_completion :: "string \<Rightarrow> call" where
  "sample_completion lang =
     ChatCompletion (buildSystemPrompt (Some lang))
       (buildUserPrompt \<lparr>u_sector = Some ''Retail'', u_employeeCount = None,
          u_jobTitle = Some ''CFO'', u_language = Some lang, u_base = VC_BASE_V1\<rparr>)"

definition sample_lead_update :: "string \<Rightarrow> call" where
  "sample_lead_update lang =
     LeadUpdate (JStr ''tok'')
       (update_body (JStr ''42'')
          [(''AI_Email_Subject__c'', JStr ''S''), (''AI_Email_Preheader__c'', JStr ''P''),
           (''AI_Email_Body_HTML__c'', JStr ''<html></html>''),
           (''AI_Email_Language__c'', JStr lang),
           (''AI_Email_Ready__c'', JBool True)])"

definition sample_final_state :: "string \<Rightarrow> state" where
  "sample_final_state lang =
     \<lparr>marketoToken = JStr ''tok'', marketoTokenExpiresAt = 1700003299000,
      calls = [sample_completion lang, TokenExchange, sample_lead_update lang]\<rparr>"

section \<open>Facts about the string operations\<close>

lemma indexOf_ge: "- 1 \<le> indexOf s c"
  by (induction s) auto

lemma indexOf_absent: "(indexOf s c = - 1) = (c \<notin> set s)"
proof (induction s)
  case Nil
  show ?case by simp
next
  case (Cons x xs)
  have "indexOf xs c + 1 \<noteq> - 1"
    using indexOf_ge [of xs c] by arith
  with Cons show ?case by auto
qed

lemma indexOf_less: "indexOf s c < int (length s) \<or> s = []"
  by (induction s) auto

lemma lastIndexOf_absent: "(lastIndexOf s c = - 1) = (c \<notin> set s)"
proof (cases "c \<in> set s")
  case True
  then have "indexOf (rev s) c \<noteq> - 1"
    by (simp add: indexOf_absent)
  moreover have "indexOf (rev s) c < int (length s)"
    using True indexOf_less [of "rev s" c] by auto
  ultimately show ?thesis
    using True by (simp add: lastIndexOf_def)
next
  case False
  then show ?thesis
    by (simp add: lastIndexOf_def indexOf_absent)
qed

lemma indexOf_first: "c \<notin> set pre \<Longrightarrow> indexOf (pre @ c # rest) c = int (length pre)"
  by (induction pre) auto

lemma lastIndexOf_last:
  assumes "c \<notin> set post"
  shows "lastIndexOf (xs @ c # post) c = int (length xs)"
proof -
  have "indexOf (rev post @ c # rev xs) c = int (length post)"
    using assms indexOf_first [of c "rev post" "rev xs"] by simp
  then show ?thesis
    by (simp add: lastIndexOf_def)
qed

lemma slice_middle:
  "slice (pre @ mid @ post) (int (length pre)) (int (length pre) + int (length mid)) = mid"
  by (simp add: slice_def Let_def)

lemma skip_no_match: "match_len ws s = 0 \<Longrightarrow> skip ws s = s"
  by (simp add: skip.simps)

lemma trim_braced: "trim (CHR ''{'' # body @ [CHR ''}'']) = CHR ''{'' # body @ [CHR ''}'']"
proof -
  have "match_len white_space (CHR ''{'' # body @ [CHR ''}'']) = 0"
    by (simp add: match_len_def white_space_def startsWith_def)
  moreover have "match_len (map rev white_space) (CHR ''}'' # rev body @ [CHR ''{'']) = 0"
    by (simp add: match_len_def white_space_def startsWith_def)
  ultimately show ?thesis
    by (simp add: trim_def trimStart_def trimEnd_def skip_no_match)
qed

lemma cleanup_step1_braced:
  "cleanup_step1 (CHR ''{'' # body @ [CHR ''}'']) = CHR ''{'' # body @ [CHR ''}'']"
  by (simp add: cleanup_step1_def trim_braced startsWith_def)

lemma cleanup_step2_wrapped:
  assumes "CHR ''{'' \<notin> set pre" and "CHR ''}'' \<notin> set post"
  shows "cleanup_step2 (pre @ (CHR ''{'' # body @ [CHR ''}'']) @ post)
         = Inr (CHR ''{'' # body @ [CHR ''}''])"
proof -
  let ?obj = "CHR ''{'' # body @ [CHR ''}'']"
  let ?text = "pre @ ?obj @ post"
  have first: "indexOf ?text (CHR ''{'') = int (length pre)"
    using assms(1) indexOf_first [of "CHR ''{''" pre "body @ [CHR ''}''] @ post"] by simp
  have "lastIndexOf ((pre @ CHR ''{'' # body) @ CHR ''}'' # post) (CHR ''}'')
        = int (length (pre @ CHR ''{'' # body))"
    using assms(2) by (rule lastIndexOf_last)
  then have last: "lastIndexOf ?text (CHR ''}'') = int (length pre) + int (length body) + 1"
    by simp
  have len: "int (length pre) + int (length body) + 1 + 1 = int (length pre) + int (length ?obj)"
    by simp
  have cut: "slice ?text (int (length pre)) (int (length pre) + int (length body) + 1 + 1) = ?obj"
    unfolding len by (rule slice_middle)
  have "\<not> (int (length pre) = - 1 \<or> int (length pre) + int (length body) + 1 = - 1
           \<or> int (length pre) + int (length body) + 1 \<le> int (length pre))"
    by simp
  then show ?thesis
    unfolding cleanup_step2_def Let_def first last cut by (simp only: if_False)
qed

lemma cleanup_braced:
  "cleanup_step2 (cleanup_step1 (CHR ''{'' # body @ [CHR ''}'']))
   = Inr (CHR ''{'' # body @ [CHR ''}''])"
  using cleanup_step2_wrapped [of "[]" "[]" body] by (simp add: cleanup_step1_braced)

lemma clean_text_shape: "clean_text = CHR ''{'' # butlast (tl clean_text) @ [CHR ''}'']"
  by (simp add: clean_text_def)

lemma cleanup_step1_clean: "cleanup_step1 clean_text = clean_text"
  using cleanup_step1_braced [of "butlast (tl clean_text)"] clean_text_shape by simp

lemma cleanup_clean: "cleanup_step2 (cleanup_step1 clean_text) = Inr clean_text"
  using cleanup_braced [of "butlast (tl clean_text)"] clean_text_shape by simp

lemma check_fields_clean: "check_fields clean_object = Inr clean_object"
  by (simp add: check_fields_def clean_object_def thenE_def)

lemma extract_clean:
  "JSON_parse clean_text = Some clean_object \<Longrightarrow> extract_email JSON_parse clean_text = Inr clean_object"
  by (simp add: extract_email_def cleanup_clean thenE_def parse_slice_def check_fields_clean)

lemma sample_parse_clean: "sample_parse clean_text = Some clean_object"
  by (simp add: sample_parse_def)

section \<open>Extraction: the claims\<close>


lemma cleanup_step1_fenced: "cleanup_step1 fenced_text = clean_text"
  by code_simp




text \<open>
  C4. A cleaned text (the text after step 1) with no opening brace, with no closing
  brace, or whose last closing brace is at or before its first opening brace, makes the
  extraction fail with the error "OpenAI output bevat geen geldig JSON-object", whatever
  \<^verbatim>\<open>JSON.parse\<close> would do: the parser is not consulted.
\<close>

theorem extraction_without_object_fails:
  assumes "cleaned = cleanup_step1 content"
    and "CHR ''{'' \<notin> set cleaned \<or> CHR ''}'' \<notin> set cleaned
         \<or> lastIndexOf cleaned (CHR ''}'') \<le> indexOf cleaned (CHR ''{'')"
  shows "extract_email JSON_parse content
         = Inl (Error ''OpenAI output bevat geen geldig JSON-object'')"
  using assms
  by (auto simp: extract_email_def cleanup_step2_def thenE_def no_json_object_def
      indexOf_absent lastIndexOf_absent Let_def)

theorem extraction_without_object_fails_witness:
  "CHR ''{'' \<notin> set (cleanup_step1 ''Sorry, I cannot help.'')
   \<and> extract_email (\<lambda>s. Some clean_object) ''Sorry, I cannot help.''
       = Inl (Error ''OpenAI output bevat geen geldig JSON-object'')
   \<and> lastIndexOf (cleanup_step1 ''} before {'') (CHR ''}'')
       \<le> indexOf (cleanup_step1 ''} before {'') (CHR ''{'')
   \<and> extract_email (\<lambda>s. Some clean_object) ''} before {''
       = Inl (Error ''OpenAI output bevat geen geldig JSON-object'')"
proof -
  have a: "cleanup_step1 ''Sorry, I cannot help.'' = ''Sorry, I cannot help.''"
    by code_simp
  have b: "cleanup_step1 ''} before {'' = ''} before {''"
    by code_simp
  have a': "CHR ''{'' \<notin> set (cleanup_step1 ''Sorry, I cannot help.'')"
    unfolding a by simp
  have b': "lastIndexOf (cleanup_step1 ''} before {'') (CHR ''}'')
            \<le> indexOf (cleanup_step1 ''} before {'') (CHR ''{'')"
    unfolding b by (simp add: lastIndexOf_def)
  show ?thesis
    using a' b'
      extraction_without_object_fails [OF refl, of "''Sorry, I cannot help.''" "\<lambda>s. Some clean_object"]
      extraction_without_object_fails [OF refl, of "''} before {''" "\<lambda>s. Some clean_object"]
    by blast
qed

text \<open>
  C5. When the slice parses to an object, the extraction returns that object exactly
  when its \<^verbatim>\<open>subject\<close>, \<^verbatim>\<open>preheader\<close> and \<^verbatim>\<open>htmlBody\<close> are all truthy, and fails with
  "OpenAI JSON mist subject/preheader/htmlBody" otherwise; in particular when one of the
  three is absent (\<^verbatim>\<open>undefined\<close>) or the empty string.
\<close>

theorem validation_of_parsed_object:
  assumes "cleanup_step2 (cleanup_step1 content) = Inr jsonSlice"
    and "JSON_parse jsonSlice = Some (JObj ps)"
    and "get_prop (JObj ps) ''subject'' = Inr subject"
    and "get_prop (JObj ps) ''preheader'' = Inr preheader"
    and "get_prop (JObj ps) ''htmlBody'' = Inr htmlBody"
  shows "extract_email JSON_parse content
         = (if truthy subject \<and> truthy preheader \<and> truthy htmlBody then Inr (JObj ps)
            else Inl (Error ''OpenAI JSON mist subject/preheader/htmlBody''))
         \<and> (subject \<in> {JUndefined, JStr []} \<or> preheader \<in> {JUndefined, JStr []}
              \<or> htmlBody \<in> {JUndefined, JStr []}
            \<longrightarrow> extract_email JSON_parse content
                = Inl (Error ''OpenAI JSON mist subject/preheader/htmlBody''))"
proof -
  have "check_fields (JObj ps)
        = (if truthy subject \<and> truthy preheader \<and> truthy htmlBody then Inr (JObj ps)
           else Inl missing_fields)"
    unfolding check_fields_def assms(3,4,5) by (simp add: thenE_def)
  then have "extract_email JSON_parse content
        = (if truthy subject \<and> truthy preheader \<and> truthy htmlBody then Inr (JObj ps)
           else Inl (Error ''OpenAI JSON mist subject/preheader/htmlBody''))"
    by (simp add: extract_email_def assms(1,2) thenE_def parse_slice_def missing_fields_def)
  then show ?thesis by auto
qed

lemma cleanup_empty_subject: "cleanup_step2 (cleanup_step1 empty_subject_text) = Inr empty_subject_text"
proof -
  have "empty_subject_text = CHR ''{'' # butlast (tl empty_subject_text) @ [CHR ''}'']"
    by (simp add: empty_subject_text_def)
  then show ?thesis
    using cleanup_braced [of "butlast (tl empty_subject_text)"] by simp
qed

lemma cleanup_no_body: "cleanup_step2 (cleanup_step1 no_body_text) = Inr no_body_text"
proof -
  have "no_body_text = CHR ''{'' # butlast (tl no_body_text) @ [CHR ''}'']"
    by (simp add: no_body_text_def)
  then show ?thesis
    using cleanup_braced [of "butlast (tl no_body_text)"] by simp
qed

lemma sample_parse_empty_subject: "sample_parse empty_subject_text = Some empty_subject_object"
  by (simp add: sample_parse_def clean_text_def empty_subject_text_def)

lemma sample_parse_no_body: "sample_parse no_body_text = Some no_body_object"
  by (simp add: sample_parse_def clean_text_def empty_subject_text_def no_body_text_def)

theorem validation_of_parsed_object_witness:
  "extract_email sample_parse clean_text = Inr clean_object
   \<and> extract_email sample_parse empty_subject_text
     = Inl (Error ''OpenAI JSON mist subject/preheader/htmlBody'')
   \<and> extract_email sample_parse no_body_text
     = Inl (Error ''OpenAI JSON mist subject/preheader/htmlBody'')"
proof -
  have "extract_email sample_parse clean_text = Inr clean_object"
    using validation_of_parsed_object [OF cleanup_clean,
        of sample_parse _ "JStr ''S''" "JStr ''P''" "JStr ''<html></html>''"]
      sample_parse_clean
    by (simp add: clean_object_def)
  moreover have "extract_email sample_parse empty_subject_text
     = Inl (Error ''OpenAI JSON mist subject/preheader/htmlBody'')"
    using validation_of_parsed_object [OF cleanup_empty_subject,
        of sample_parse _ "JStr []" "JStr ''P''" "JStr ''<html></html>''"]
      sample_parse_empty_subject
    by (simp add: empty_subject_object_def)
  moreover have "extract_email sample_parse no_body_text
     = Inl (Error ''OpenAI JSON mist subject/preheader/htmlBody'')"
    using validation_of_parsed_object [OF cleanup_no_body,
        of sample_parse _ "JStr ''S''" "JStr ''P''" JUndefined]
      sample_parse_no_body
    by (simp add: no_body_object_def)
  ultimately show ?thesis by simp
qed

text \<open>
  C8. On the clean text \<^verbatim>\<open>{"subject":"S","preheader":"P","htmlBody":"<html></html>"}\<close>
  step 1 and step 2 change nothing: the text handed to \<^verbatim>\<open>JSON.parse\<close> is the input
  itself, and the extraction returns the object the parser reads there, unchanged.
\<close>

theorem extraction_of_clean_text:
  assumes "JSON_parse clean_text = Some clean_object"
  shows "cleanup_step1 clean_text = clean_text
         \<and> cleanup_step2 (cleanup_step1 clean_text) = Inr clean_text
         \<and> extract_email JSON_parse clean_text = Inr clean_object"
  using assms cleanup_step1_clean cleanup_clean extract_clean by simp

theorem extraction_of_clean_text_witness:
  "sample_parse clean_text = Some clean_object
   \<and> cleanup_step2 (cleanup_step1 clean_text) = Inr clean_text
   \<and> extract_email sample_parse clean_text = Inr clean_object"
  using extraction_of_clean_text [of sample_parse] sample_parse_clean
  by blast

section \<open>The token cache: the claims\<close>

text \<open>
  C2. A token is cached when \<^verbatim>\<open>marketoToken\<close> is truthy (the test of line 38: not
  \<^verbatim>\<open>null\<close>, not \<^verbatim>\<open>undefined\<close>, not the empty string). With a cached token and a clock
  strictly before \<^verbatim>\<open>marketoTokenExpiresAt\<close> the call returns the cached value and
  changes nothing: no exchange. Without a cached token, or at or after the expiry, the
  call makes exactly one token exchange and, when it is granted, stores and returns the
  new token with its new expiry. Hence a value returned without an exchange is the
  cached token with a positive remaining lifetime.
\<close>

theorem cache_hit_or_single_exchange:
  "(truthy (marketoToken s) \<and> now < marketoTokenExpiresAt s
      \<longrightarrow> getMarketoAccessToken now reply s = (Inr (marketoToken s), s))
   \<and> (\<not> truthy (marketoToken s) \<or> marketoTokenExpiresAt s \<le> now
      \<longrightarrow> calls (snd (getMarketoAccessToken now reply s)) = calls s @ [TokenExchange]
          \<and> (\<forall>tok e. reply = TokenGranted tok e
                \<longrightarrow> getMarketoAccessToken now reply s
                    = (Inr tok, s\<lparr>calls := calls s @ [TokenExchange], marketoToken := tok,
                                  marketoTokenExpiresAt := now + (e - 300) * 1000\<rparr>)))
   \<and> (\<forall>v. fst (getMarketoAccessToken now reply s) = Inr v
            \<and> calls (snd (getMarketoAccessToken now reply s)) = calls s
      \<longrightarrow> v = marketoToken s \<and> 0 < marketoTokenExpiresAt s - now)"
  by (auto simp: getMarketoAccessToken_def Let_def split: token_reply.splits)

theorem cache_hit_or_single_exchange_witness:
  "getMarketoAccessToken 999 TokenRefused
     \<lparr>marketoToken = JStr ''abc'', marketoTokenExpiresAt = 1000, calls = []\<rparr>
   = (Inr (JStr ''abc''), \<lparr>marketoToken = JStr ''abc'', marketoTokenExpiresAt = 1000, calls = []\<rparr>)
   \<and> getMarketoAccessToken 1000 (TokenGranted (JStr ''new'') 3600)
     \<lparr>marketoToken = JStr ''abc'', marketoTokenExpiresAt = 1000, calls = []\<rparr>
   = (Inr (JStr ''new''),
      \<lparr>marketoToken = JStr ''new'', marketoTokenExpiresAt = 3301000, calls = [TokenExchange]\<rparr>)
   \<and> getMarketoAccessToken 5 (TokenGranted (JStr ''first'') 3600) initial_state
   = (Inr (JStr ''first''),
      \<lparr>marketoToken = JStr ''first'', marketoTokenExpiresAt = 3300005, calls = [TokenExchange]\<rparr>)"
  using cache_hit_or_single_exchange [of "\<lparr>marketoToken = JStr ''abc'', marketoTokenExpiresAt = 1000, calls = []\<rparr>" 999 TokenRefused]
    cache_hit_or_single_exchange [of "\<lparr>marketoToken = JStr ''abc'', marketoTokenExpiresAt = 1000, calls = []\<rparr>" 1000 "TokenGranted (JStr ''new'') 3600"]
    cache_hit_or_single_exchange [of initial_state 5 "TokenGranted (JStr ''first'') 3600"]
  by (simp add: initial_state_def)

text \<open>
  C6. After an exchange that was granted, the cached expiry is the time of the call plus
  \<open>(expires_in - 300) * 1000\<close> milliseconds, and so never later than the end of the
  upstream window, \<open>now + expires_in * 1000\<close>.
\<close>

theorem expiry_subtracts_margin:
  assumes "\<not> truthy (marketoToken s) \<or> marketoTokenExpiresAt s \<le> now"
    and "getMarketoAccessToken now (TokenGranted tok expires_in) s = (r, s')"
  shows "marketoTokenExpiresAt s' = now + (expires_in - 300) * 1000
         \<and> marketoTokenExpiresAt s' \<le> now + expires_in * 1000"
  using assms by (auto simp: getMarketoAccessToken_def Let_def)

theorem expiry_subtracts_margin_witness:
  "marketoTokenExpiresAt (snd (getMarketoAccessToken 1700000000000 (TokenGranted (JStr ''t'') 3599) initial_state))
     = 1700003299000
   \<and> marketoTokenExpiresAt (snd (getMarketoAccessToken 1700000000000 (TokenGranted (JStr ''t'') 3599) initial_state))
     \<le> 1700003599000"
  using expiry_subtracts_margin [of initial_state 1700000000000 "JStr ''t''" 3599
      "fst (getMarketoAccessToken 1700000000000 (TokenGranted (JStr ''t'') 3599) initial_state)"
      "snd (getMarketoAccessToken 1700000000000 (TokenGranted (JStr ''t'') 3599) initial_state)"]
  by (simp add: initial_state_def)

text \<open>
  C9. When the exchange is answered with a status that is not a success, the call fails
  with "Failed to get Marketo access token" and both variables of the cache keep their
  values: the old token stays. Every later call therefore makes an exchange again.
\<close>

theorem failed_exchange_keeps_cache:
  assumes "\<not> truthy (marketoToken s) \<or> marketoTokenExpiresAt s \<le> now"
    and "getMarketoAccessToken now TokenRefused s = (r, s')"
  shows "r = Inl (Error ''Failed to get Marketo access token'')
         \<and> marketoToken s' = marketoToken s
         \<and> marketoTokenExpiresAt s' = marketoTokenExpiresAt s
         \<and> calls s' = calls s @ [TokenExchange]
         \<and> (\<forall>later reply. now \<le> later
              \<longrightarrow> calls (snd (getMarketoAccessToken later reply s')) = calls s' @ [TokenExchange])"
  using assms by (auto simp: getMarketoAccessToken_def Let_def token_error_def split: token_reply.splits)

theorem failed_exchange_keeps_cache_witness:
  "getMarketoAccessToken 2000 TokenRefused
     \<lparr>marketoToken = JStr ''old'', marketoTokenExpiresAt = 1000, calls = []\<rparr>
   = (Inl (Error ''Failed to get Marketo access token''),
      \<lparr>marketoToken = JStr ''old'', marketoTokenExpiresAt = 1000, calls = [TokenExchange]\<rparr>)
   \<and> calls (snd (getMarketoAccessToken 2001 (TokenGranted (JStr ''new'') 3600)
        \<lparr>marketoToken = JStr ''old'', marketoTokenExpiresAt = 1000, calls = [TokenExchange]\<rparr>))
     = [TokenExchange, TokenExchange]"
proof -
  let ?s = "\<lparr>marketoToken = JStr ''old'', marketoTokenExpiresAt = 1000, calls = []\<rparr>"
  let ?s' = "\<lparr>marketoToken = JStr ''old'', marketoTokenExpiresAt = 1000, calls = [TokenExchange]\<rparr>"
  have run: "getMarketoAccessToken 2000 TokenRefused ?s = (Inl token_error, ?s')"
    by (simp add: getMarketoAccessToken_def)
  have "\<not> truthy (marketoToken ?s) \<or> marketoTokenExpiresAt ?s \<le> 2000" by simp
  from failed_exchange_keeps_cache [OF this run] run
  show ?thesis by (simp add: token_error_def)
qed

section \<open>The lead update: the claim\<close>

lemma carries_errors_total: "carries_errors data = Inr (carries_errors data = Inr True)"
proof (cases "truthy data")
  case False
  then show ?thesis by (simp add: carries_errors_def)
next
  case True
  then obtain errors where e: "get_prop data ''errors'' = Inr errors"
    by (cases data) auto
  show ?thesis
  proof (cases "truthy errors")
    case False
    with True e show ?thesis by (simp add: carries_errors_def thenE_def)
  next
    case t: True
    then obtain len where "get_prop errors ''length'' = Inr len"
      by (cases errors) auto
    with True e t show ?thesis by (simp add: carries_errors_def thenE_def)
  qed
qed

lemma carries_errors_array:
  "get_prop data ''errors'' = Inr (JArr es) \<Longrightarrow> carries_errors data = Inr (es \<noteq> [])"
  by (cases data) (auto simp: carries_errors_def thenE_def split: if_splits)

lemma carries_errors_absent:
  "get_prop data ''errors'' = Inr JUndefined \<Longrightarrow> carries_errors data = Inr False"
  by (cases data) (auto simp: carries_errors_def thenE_def split: if_splits)

text \<open>
  What the call does once a token is there. The update request is sent, and the body of
  the response is parsed before anything is decided. For a body that parses, the call
  fails with "Failed to update Marketo lead" exactly when the status is not a success or
  the test \<^verbatim>\<open>data.errors.length\<close> of line 89 is truthy, and returns the parsed body
  otherwise: so an answer 200 with a non-empty \<^verbatim>\<open>errors\<close> array is a failure. For a body
  whose \<^verbatim>\<open>errors\<close> is an array that test says that the array is not empty; for a body
  without \<^verbatim>\<open>errors\<close> it is false. A body that does not parse makes line 87 throw.
\<close>

lemma update_on_parsed_body:
  assumes "getMarketoAccessToken now token_answer s = (Inr token, s1)"
  shows "(\<forall>ok data. update_answer = UpdateResponse ok (Some data)
            \<longrightarrow> fst (updateMarketoLead now token_answer update_answer marketoLeadId lead_fields s)
                = (if \<not> ok \<or> carries_errors data = Inr True
                   then Inl (Error ''Failed to update Marketo lead'') else Inr data))
         \<and> (\<forall>ok. update_answer = UpdateResponse ok None
            \<longrightarrow> fst (updateMarketoLead now token_answer update_answer marketoLeadId lead_fields s)
                = Inl SyntaxError)
         \<and> (\<forall>data es. get_prop data ''errors'' = Inr (JArr es)
            \<longrightarrow> (carries_errors data = Inr True) = (es \<noteq> []))
         \<and> (\<forall>data. get_prop data ''errors'' = Inr JUndefined
            \<longrightarrow> carries_errors data \<noteq> Inr True)
         \<and> calls (snd (updateMarketoLead now token_answer update_answer marketoLeadId lead_fields s))
           = calls s1 @ [LeadUpdate token (update_body marketoLeadId lead_fields)]"
proof -
  have a: "\<forall>ok data. update_answer = UpdateResponse ok (Some data)
            \<longrightarrow> fst (updateMarketoLead now token_answer update_answer marketoLeadId lead_fields s)
                = (if \<not> ok \<or> carries_errors data = Inr True
                   then Inl (Error ''Failed to update Marketo lead'') else Inr data)"
  proof (intro allI impI)
    fix ok data
    assume u: "update_answer = UpdateResponse ok (Some data)"
    show "fst (updateMarketoLead now token_answer update_answer marketoLeadId lead_fields s)
                = (if \<not> ok \<or> carries_errors data = Inr True
                   then Inl (Error ''Failed to update Marketo lead'') else Inr data)"
      using carries_errors_total [of data]
      by (cases "carries_errors data = Inr True")
         (simp_all add: updateMarketoLead_def assms u Let_def update_error_def)
  qed
  have b: "\<forall>ok. update_answer = UpdateResponse ok None
            \<longrightarrow> fst (updateMarketoLead now token_answer update_answer marketoLeadId lead_fields s)
                = Inl SyntaxError"
    by (simp add: updateMarketoLead_def assms Let_def)
  have c: "\<forall>data es. get_prop data ''errors'' = Inr (JArr es)
            \<longrightarrow> (carries_errors data = Inr True) = (es \<noteq> [])"
    by (simp add: carries_errors_array)
  have d: "\<forall>data. get_prop data ''errors'' = Inr JUndefined \<longrightarrow> carries_errors data \<noteq> Inr True"
    by (simp add: carries_errors_absent)
  have e: "calls (snd (updateMarketoLead now token_answer update_answer marketoLeadId lead_fields s))
           = calls s1 @ [LeadUpdate token (update_body marketoLeadId lead_fields)]"
    by (simp add: updateMarketoLead_def assms Let_def
        split: update_reply.splits option.splits sum.splits bool.splits)
  from a b c d e show ?thesis by blast
qed

lemma sample_token:
  "getMarketoAccessToken 1700000000000 (TokenGranted (JStr ''tok'') 3599) initial_state
   = (Inr (JStr ''tok''),
      \<lparr>marketoToken = JStr ''tok'', marketoTokenExpiresAt = 1700003299000,
         calls = [TokenExchange]\<rparr>)"
  by (simp add: getMarketoAccessToken_def initial_state_def)

lemma sample_bodies:
  "carries_errors update_errors_body = Inr True" "carries_errors update_ok_body = Inr False"
  by (simp_all add: carries_errors_def update_errors_body_def update_ok_body_def thenE_def)

lemma update_on_sample_bodies:
  "fst (updateMarketoLead 1700000000000 (TokenGranted (JStr ''tok'') 3599)
          (UpdateResponse True (Some update_errors_body)) (JStr ''42'') [] initial_state)
     = Inl (Error ''Failed to update Marketo lead'')
   \<and> fst (updateMarketoLead 1700000000000 (TokenGranted (JStr ''tok'') 3599)
          (UpdateResponse False (Some update_ok_body)) (JStr ''42'') [] initial_state)
     = Inl (Error ''Failed to update Marketo lead'')
   \<and> fst (updateMarketoLead 1700000000000 (TokenGranted (JStr ''tok'') 3599)
          (UpdateResponse True (Some update_ok_body)) (JStr ''42'') [] initial_state)
     = Inr update_ok_body
   \<and> fst (updateMarketoLead 1700000000000 (TokenGranted (JStr ''tok'') 3599)
          (UpdateResponse True None) (JStr ''42'') [] initial_state)
     = Inl SyntaxError"
  using sample_bodies
    update_on_parsed_body [OF sample_token,
      of "UpdateResponse True (Some update_errors_body)" "JStr ''42''" "[]"]
    update_on_parsed_body [OF sample_token,
      of "UpdateResponse False (Some update_ok_body)" "JStr ''42''" "[]"]
    update_on_parsed_body [OF sample_token,
      of "UpdateResponse True (Some update_ok_body)" "JStr ''42''" "[]"]
    update_on_parsed_body [OF sample_token,
      of "UpdateResponse True None" "JStr ''42''" "[]"]
  by auto

text \<open>
  C3. The call is to fail with "Failed to update Marketo lead" whenever the status is not
  a success: line 89 tests \<^verbatim>\<open>!res.ok\<close> first, and the two other fetches of the module
  test \<^verbatim>\<open>res.ok\<close> before they read the body. Here the body is read first (line 87), so
  on a response with such a status and a body that is not JSON (the HTML error page of a
  gateway) the call fails with the parser's \<^verbatim>\<open>SyntaxError\<close> and not with the update
  error; the update request has been sent.
\<close>

theorem update_refused_with_unreadable_body:
  "updateMarketoLead 1700000000000 (TokenGranted (JStr ''tok'') 3599)
          (UpdateResponse False None) (JStr ''42'') [] initial_state
     = (Inl SyntaxError,
        \<lparr>marketoToken = JStr ''tok'', marketoTokenExpiresAt = 1700003299000,
           calls = [TokenExchange, LeadUpdate (JStr ''tok'') (update_body (JStr ''42'') [])]\<rparr>)
   \<and> fst (updateMarketoLead 1700000000000 (TokenGranted (JStr ''tok'') 3599)
          (UpdateResponse False None) (JStr ''42'') [] initial_state)
     \<noteq> Inl (Error ''Failed to update Marketo lead'')"
  by (simp add: updateMarketoLead_def sample_token Let_def)

section \<open>The webhook: the claims\<close>

lemma check_fields_Inr:
  assumes "check_fields e = Inr e'"
  shows "e' = e \<and> (\<exists>a b c. get_prop e ''subject'' = Inr a \<and> truthy a
                 \<and> get_prop e ''preheader'' = Inr b \<and> truthy b
                 \<and> get_prop e ''htmlBody'' = Inr c \<and> truthy c)"
  using assms
  by (auto simp: check_fields_def thenE_def split: sum.splits if_splits)

lemma extract_email_Inr: "extract_email p c = Inr e \<Longrightarrow> check_fields e = Inr e"
  by (auto simp: extract_email_def thenE_def parse_slice_def
      split: sum.splits option.splits dest: check_fields_Inr)

lemma generate_Inr:
  assumes "generateEmailWithAI p ans a s = (Inr e, s1)"
  shows "check_fields e = Inr e"
  using assms
  by (auto simp: generateEmailWithAI_def Let_def BASE_DATA_def
      split: base_lookup.splits completion_reply.splits jsvalue.splits if_splits
      dest: extract_email_Inr)

lemma generate_state:
  "snd (generateEmailWithAI p ans a s)
   = (if default_to (g_baseDataId a) ''undefined'' = ''VC_BASE_V1''
      then s\<lparr>calls := calls s @
               [ChatCompletion (buildSystemPrompt (Some (default_to (g_language a) ''nl'')))
                 (buildUserPrompt \<lparr>u_sector = g_sector a, u_employeeCount = g_employeeCount a,
                    u_jobTitle = g_jobTitle a,
                    u_language = Some (default_to (g_language a) ''nl''),
                    u_base = VC_BASE_V1\<rparr>)]\<rparr>
      else s)"
  by (auto simp: generateEmailWithAI_def Let_def BASE_DATA_def
      split: base_lookup.splits completion_reply.splits jsvalue.splits if_splits)

lemma generate_unknown_base:
  "default_to (g_baseDataId a) ''undefined'' \<noteq> ''VC_BASE_V1''
   \<Longrightarrow> \<exists>e. fst (generateEmailWithAI p ans a s) = Inl e"
  by (auto simp: generateEmailWithAI_def Let_def BASE_DATA_def split: base_lookup.splits)

lemma default_to_Some: "default_to (Some v) d = v"
  by (simp add: default_to_def)

lemma token_calls:
  assumes "getMarketoAccessToken now ta s = (r, s1)"
  shows "calls s1 = calls s \<or> calls s1 = calls s @ [TokenExchange]"
  using assms
  by (auto simp: getMarketoAccessToken_def Let_def split: if_splits token_reply.splits)

lemma carries_errors_not_Inl: "carries_errors data \<noteq> Inl e"
  using carries_errors_total [of data] by (cases "carries_errors data") auto

lemma update_Inr:
  assumes "updateMarketoLead now ta ua lid f s = (Inr m, s2)"
  shows "ua = UpdateResponse True (Some m) \<and> carries_errors m = Inr False
         \<and> (\<exists>tok. fst (getMarketoAccessToken now ta s) = Inr tok
                 \<and> (calls s2 = calls s @ [LeadUpdate tok (update_body lid f)]
                    \<or> calls s2 = calls s @ [TokenExchange, LeadUpdate tok (update_body lid f)]))"
proof -
  obtain r s1 where g: "getMarketoAccessToken now ta s = (r, s1)"
    by (cases "getMarketoAccessToken now ta s")
  from assms g obtain tok where r: "r = Inr tok"
    by (cases r) (auto simp: updateMarketoLead_def)
  from assms g r have "ua = UpdateResponse True (Some m)" and "carries_errors m = Inr False"
    and "calls s2 = calls s1 @ [LeadUpdate tok (update_body lid f)]"
    by (auto simp: updateMarketoLead_def Let_def
        split: update_reply.splits option.splits sum.splits bool.splits if_splits)
  with token_calls [OF g] g r show ?thesis by auto
qed

lemma update_Inl:
  assumes "updateMarketoLead now ta ua lid f s = (Inl e, s2)"
  shows "(fst (getMarketoAccessToken now ta s) = Inl e
            \<and> (calls s2 = calls s \<or> calls s2 = calls s @ [TokenExchange]))
         \<or> ((\<forall>d. ua = UpdateResponse True (Some d) \<longrightarrow> carries_errors d = Inr True)
            \<and> (\<exists>tok. fst (getMarketoAccessToken now ta s) = Inr tok
                 \<and> (calls s2 = calls s @ [LeadUpdate tok (update_body lid f)]
                    \<or> calls s2 = calls s @ [TokenExchange, LeadUpdate tok (update_body lid f)])))"
proof -
  obtain r s1 where g: "getMarketoAccessToken now ta s = (r, s1)"
    by (cases "getMarketoAccessToken now ta s")
  show ?thesis
  proof (cases r)
    case (Inl e')
    with assms g have "s2 = s1" "e' = e" by (simp_all add: updateMarketoLead_def)
    with token_calls [OF g] g Inl show ?thesis by auto
  next
    case (Inr tok)
    with assms g have c: "calls s2 = calls s1 @ [LeadUpdate tok (update_body lid f)]"
      by (auto simp: updateMarketoLead_def Let_def
        split: update_reply.splits option.splits sum.splits bool.splits if_splits)
    have "\<forall>d. ua = UpdateResponse True (Some d) \<longrightarrow> carries_errors d = Inr True"
    proof (intro allI impI)
      fix d
      assume ua: "ua = UpdateResponse True (Some d)"
      show "carries_errors d = Inr True"
      proof (rule ccontr)
        assume "carries_errors d \<noteq> Inr True"
        with carries_errors_total [of d] have "carries_errors d = Inr False" by simp
        with assms g Inr ua show False
          by (simp add: updateMarketoLead_def Let_def)
      qed
    qed
    with token_calls [OF g] g Inr c show ?thesis by auto
  qed
qed

lemma sent_same: "sent s s = []"
  by (simp add: sent_def)

lemma fieldsToUpdate_checked:
  assumes "get_prop e ''subject'' = Inr a" "get_prop e ''preheader'' = Inr b"
    "get_prop e ''htmlBody'' = Inr c"
  shows "fieldsToUpdate e l =
     Inr [(''AI_Email_Subject__c'', a), (''AI_Email_Preheader__c'', b),
          (''AI_Email_Body_HTML__c'', c), (''AI_Email_Language__c'', JStr l),
          (''AI_Email_Ready__c'', JBool True)]"
  using assms by (simp add: fieldsToUpdate_def thenE_def)


text \<open>
  Every run of the handler, by the place where it ends: \<open>cc\<close> is the chat completion
  it sends, \<open>lu tok a b c\<close> the lead update for an e-mail with the fields \<open>a\<close>, \<open>b\<close>, \<open>c\<close>.
\<close>

lemma webhook_runs:
  fixes cc :: call and lu :: "jsvalue \<Rightarrow> jsvalue \<Rightarrow> jsvalue \<Rightarrow> jsvalue \<Rightarrow> call"
  assumes run: "webhook w req s = (r, s')"
    and cc: "cc = ChatCompletion (buildSystemPrompt (Some (default_to (r_language req) ''nl'')))
                 (buildUserPrompt \<lparr>u_sector = r_sector req, u_employeeCount = r_employeeCount req,
                    u_jobTitle = r_jobTitle req,
                    u_language = Some (default_to (r_language req) ''nl''),
                    u_base = VC_BASE_V1\<rparr>)"
    and lu: "\<And>tok a b c. lu tok a b c =
               LeadUpdate tok (update_body (js_of (r_marketoLeadId req))
                  [(''AI_Email_Subject__c'', a), (''AI_Email_Preheader__c'', b),
                   (''AI_Email_Body_HTML__c'', c),
                   (''AI_Email_Language__c'', JStr (default_to (r_language req) ''nl'')),
                   (''AI_Email_Ready__c'', JBool True)])"
  shows "(r = Unauthorized \<and> s' = s
            \<and> truthy (js_of (WEBHOOK_SECRET w)) \<and> x_webhook_key req \<noteq> WEBHOOK_SECRET w)
       \<or> (r = BadRequest \<and> s' = s \<and> \<not> truthy (js_of (r_marketoLeadId req)))
       \<or> (truthy (js_of (r_marketoLeadId req))
            \<and> \<not> (truthy (js_of (WEBHOOK_SECRET w)) \<and> x_webhook_key req \<noteq> WEBHOOK_SECRET w)
            \<and> (\<exists>e. handler_generate w req s = (Inl e, s') \<and> r = ServerError e
                 \<and> sent s s' = (if default_to (r_baseDataId req) ''VC_BASE_V1'' = ''VC_BASE_V1''
                                then [cc] else [])))
       \<or> (truthy (js_of (r_marketoLeadId req))
            \<and> \<not> (truthy (js_of (WEBHOOK_SECRET w)) \<and> x_webhook_key req \<noteq> WEBHOOK_SECRET w)
            \<and> (\<exists>aiEmail a b c tok.
                 fst (handler_generate w req s) = Inr aiEmail
                 \<and> get_prop aiEmail ''subject'' = Inr a \<and> truthy a
                 \<and> get_prop aiEmail ''preheader'' = Inr b \<and> truthy b
                 \<and> get_prop aiEmail ''htmlBody'' = Inr c \<and> truthy c
                 \<and> ((\<exists>e. r = ServerError e
                        \<and> fst (getMarketoAccessToken (w_now w) (w_token w)
                                 (snd (handler_generate w req s))) = Inl e
                        \<and> sent s s' \<in> {[cc], [cc, TokenExchange]})
                    \<or> (\<exists>e. r = ServerError e
                        \<and> fst (getMarketoAccessToken (w_now w) (w_token w)
                                 (snd (handler_generate w req s))) = Inr tok
                        \<and> (\<forall>d. w_update w = UpdateResponse True (Some d)
                               \<longrightarrow> carries_errors d = Inr True)
                        \<and> sent s s' \<in> {[cc, lu tok a b c], [cc, TokenExchange, lu tok a b c]})
                    \<or> (\<exists>m. r = Success aiEmail m \<and> w_update w = UpdateResponse True (Some m)
                        \<and> carries_errors m = Inr False
                        \<and> fst (getMarketoAccessToken (w_now w) (w_token w)
                                 (snd (handler_generate w req s))) = Inr tok
                        \<and> sent s s' \<in> {[cc, lu tok a b c], [cc, TokenExchange, lu tok a b c]}))))"
proof (cases "truthy (js_of (WEBHOOK_SECRET w)) \<and> x_webhook_key req \<noteq> WEBHOOK_SECRET w")
  case True
  with run have "r = Unauthorized" "s' = s"
    by (auto simp: webhook_def)
  with True show ?thesis by simp
next
  case authorized: False
  show ?thesis
  proof (cases "truthy (js_of (r_marketoLeadId req))")
    case False
    with run authorized have "r = BadRequest" "s' = s"
      by (auto simp: webhook_def)
    with False show ?thesis by simp
  next
    case lead: True
    obtain g s1 where gen: "handler_generate w req s = (g, s1)"
      by (cases "handler_generate w req s")
    have "s1 = snd (handler_generate w req s)"
      using gen by simp
    also have "\<dots> = (if default_to (r_baseDataId req) ''VC_BASE_V1'' = ''VC_BASE_V1''
                    then s\<lparr>calls := calls s @ [cc]\<rparr> else s)"
      unfolding handler_generate_def cc by (simp add: generate_state default_to_Some)
    finally have s1: "s1 = (if default_to (r_baseDataId req) ''VC_BASE_V1'' = ''VC_BASE_V1''
                    then s\<lparr>calls := calls s @ [cc]\<rparr> else s)" .
    show ?thesis
    proof (cases g)
      case (Inl e)
      with run authorized lead gen have r: "r = ServerError e" "s' = s1"
        by (auto simp: webhook_def)
      have "sent s s1 = (if default_to (r_baseDataId req) ''VC_BASE_V1'' = ''VC_BASE_V1''
                         then [cc] else [])"
        unfolding s1 by (simp add: sent_def)
      with r gen Inl lead authorized show ?thesis by simp
    next
      case (Inr aiEmail)
      from gen Inr have chk: "check_fields aiEmail = Inr aiEmail"
        unfolding handler_generate_def by (auto dest!: generate_Inr)
      have "default_to (r_baseDataId req) ''VC_BASE_V1'' = ''VC_BASE_V1''"
      proof (rule ccontr)
        assume "default_to (r_baseDataId req) ''VC_BASE_V1'' \<noteq> ''VC_BASE_V1''"
        then have "\<exists>e. fst (handler_generate w req s) = Inl e"
          unfolding handler_generate_def
          by (intro generate_unknown_base) (simp add: default_to_Some)
        with gen Inr show False by simp
      qed
      with s1 have c1: "calls s1 = calls s @ [cc]" by simp
      from check_fields_Inr [OF chk] obtain a b c where
        f: "get_prop aiEmail ''subject'' = Inr a" "truthy a"
           "get_prop aiEmail ''preheader'' = Inr b" "truthy b"
           "get_prop aiEmail ''htmlBody'' = Inr c" "truthy c"
        by blast
      let ?flds = "[(''AI_Email_Subject__c'', a), (''AI_Email_Preheader__c'', b),
          (''AI_Email_Body_HTML__c'', c),
          (''AI_Email_Language__c'', JStr (default_to (r_language req) ''nl'')),
          (''AI_Email_Ready__c'', JBool True)]"
      have flds: "fieldsToUpdate aiEmail (default_to (r_language req) ''nl'') = Inr ?flds"
        using f by (simp add: fieldsToUpdate_checked)
      obtain u s2 where upd: "updateMarketoLead (w_now w) (w_token w) (w_update w)
                         (js_of (r_marketoLeadId req)) ?flds s1 = (u, s2)"
        by (cases "updateMarketoLead (w_now w) (w_token w) (w_update w)
                         (js_of (r_marketoLeadId req)) ?flds s1")
      have g': "fst (handler_generate w req s) = Inr aiEmail"
        using gen Inr by simp
      show ?thesis
      proof (cases u)
        case e: (Inl e)
        with run authorized lead gen Inr flds upd have r: "r = ServerError e" "s' = s2"
          by (auto simp: webhook_def)
        have s1': "snd (handler_generate w req s) = s1"
          using gen by simp
        from update_Inl [OF upd [unfolded e]] c1
        consider
          (token) "fst (getMarketoAccessToken (w_now w) (w_token w) s1) = Inl e"
            "sent s s2 \<in> {[cc], [cc, TokenExchange]}"
        | (update) tok where
            "fst (getMarketoAccessToken (w_now w) (w_token w) s1) = Inr tok"
            "\<forall>d. w_update w = UpdateResponse True (Some d) \<longrightarrow> carries_errors d = Inr True"
            "sent s s2 \<in> {[cc, lu tok a b c], [cc, TokenExchange, lu tok a b c]}"
          unfolding lu by (auto simp: sent_def)
        then show ?thesis
        proof cases
          case token
          with r g' f lead authorized s1' show ?thesis by blast
        next
          case update
          with r g' f lead authorized s1' show ?thesis by blast
        qed
      next
        case m: (Inr mkto)
        with run authorized lead gen Inr flds upd have r: "r = Success aiEmail mkto" "s' = s2"
          by (auto simp: webhook_def)
        have s1': "snd (handler_generate w req s) = s1"
          using gen by simp
        from update_Inr [OF upd [unfolded m]] c1
        obtain tok where "w_update w = UpdateResponse True (Some mkto)"
          and "carries_errors mkto = Inr False"
          and "fst (getMarketoAccessToken (w_now w) (w_token w) s1) = Inr tok"
          and "sent s s2 \<in> {[cc, lu tok a b c], [cc, TokenExchange, lu tok a b c]}"
          unfolding lu by (auto simp: sent_def)
        with r g' f lead authorized s1' show ?thesis by blast
      qed
    qed
  qed
qed

lemma webhook_sent:
  fixes cc :: call and lu :: "jsvalue \<Rightarrow> jsvalue \<Rightarrow> jsvalue \<Rightarrow> jsvalue \<Rightarrow> call"
  assumes run: "webhook w req s = (r, s')"
    and cc: "cc = ChatCompletion (buildSystemPrompt (Some (default_to (r_language req) ''nl'')))
                 (buildUserPrompt \<lparr>u_sector = r_sector req, u_employeeCount = r_employeeCount req,
                    u_jobTitle = r_jobTitle req,
                    u_language = Some (default_to (r_language req) ''nl''),
                    u_base = VC_BASE_V1\<rparr>)"
    and lu: "\<And>tok a b c. lu tok a b c =
               LeadUpdate tok (update_body (js_of (r_marketoLeadId req))
                  [(''AI_Email_Subject__c'', a), (''AI_Email_Preheader__c'', b),
                   (''AI_Email_Body_HTML__c'', c),
                   (''AI_Email_Language__c'', JStr (default_to (r_language req) ''nl'')),
                   (''AI_Email_Ready__c'', JBool True)])"
  shows "\<exists>tok a b c. sent s s' \<in> {[], [cc], [cc, TokenExchange], [cc, lu tok a b c],
                                   [cc, TokenExchange, lu tok a b c]}"
  using webhook_runs [OF run cc lu]
  by (elim disjE conjE exE; simp add: sent_same; blast)

lemma update_body_five:
  "update_body lid [(''AI_Email_Subject__c'', a), (''AI_Email_Preheader__c'', b),
                    (''AI_Email_Body_HTML__c'', c), (''AI_Email_Language__c'', l),
                    (''AI_Email_Ready__c'', d)]
   = JObj [(''action'', JStr ''updateOnly''), (''lookupField'', JStr ''id''),
           (''input'', JArr [JObj [(''id'', lid), (''AI_Email_Subject__c'', a),
              (''AI_Email_Preheader__c'', b), (''AI_Email_Body_HTML__c'', c),
              (''AI_Email_Language__c'', l), (''AI_Email_Ready__c'', d)]])]"
  by (simp add: update_body_def)


lemma extract_fenced: "extract_email sample_parse fenced_text = Inr clean_object"
  using cleanup_clean
  by (simp add: extract_email_def cleanup_step1_fenced cleanup_step1_clean thenE_def
      parse_slice_def sample_parse_clean check_fields_clean)


lemma sample_generate:
  "lang = ''nl'' \<or> lang = [] \<Longrightarrow>
   handler_generate sample_world (sample_request\<lparr>r_language := Some lang\<rparr>) initial_state
   = (Inr clean_object, initial_state\<lparr>calls := [sample_completion lang]\<rparr>)"
  by (auto simp: handler_generate_def generateEmailWithAI_def sample_world_def sample_request_def
      default_to_def BASE_DATA_def Let_def extract_fenced initial_state_def sample_completion_def)

lemma sample_fields:
  "fieldsToUpdate clean_object lang
   = Inr [(''AI_Email_Subject__c'', JStr ''S''), (''AI_Email_Preheader__c'', JStr ''P''),
           (''AI_Email_Body_HTML__c'', JStr ''<html></html>''),
           (''AI_Email_Language__c'', JStr lang),
           (''AI_Email_Ready__c'', JBool True)]"
  by (simp add: fieldsToUpdate_def clean_object_def thenE_def)

lemma sample_run:
  assumes "lang = ''nl'' \<or> lang = []"
  shows "webhook (sample_world\<lparr>w_update := ua\<rparr>) (sample_request\<lparr>r_language := Some lang\<rparr>) initial_state
   = (case ua of
        UpdateUnreachable \<Rightarrow> ServerError TypeError
      | UpdateResponse ok None \<Rightarrow> ServerError SyntaxError
      | UpdateResponse ok (Some data) \<Rightarrow>
          if \<not> ok \<or> carries_errors data = Inr True then ServerError update_error
          else Success clean_object data,
      sample_final_state lang)"
proof -
  let ?w = "sample_world\<lparr>w_update := ua\<rparr>"
  let ?q = "sample_request\<lparr>r_language := Some lang\<rparr>"
  have g: "handler_generate ?w ?q initial_state
   = (Inr clean_object, initial_state\<lparr>calls := [sample_completion lang]\<rparr>)"
    using sample_generate [OF assms] by (simp add: handler_generate_def)
  have w: "WEBHOOK_SECRET ?w = Some ''s3cret''" "w_now ?w = 1700000000000"
    "w_token ?w = TokenGranted (JStr ''tok'') 3599" "w_update ?w = ua"
    by (simp_all add: sample_world_def)
  have q: "x_webhook_key ?q = Some ''s3cret''" "r_marketoLeadId ?q = Some ''42''"
    "r_language ?q = Some lang"
    by (simp_all add: sample_request_def)
  let ?flds = "[(''AI_Email_Subject__c'', JStr ''S''), (''AI_Email_Preheader__c'', JStr ''P''),
           (''AI_Email_Body_HTML__c'', JStr ''<html></html>''),
           (''AI_Email_Language__c'', JStr lang),
           (''AI_Email_Ready__c'', JBool True)]"
  have step: "webhook ?w ?q initial_state
    = (case updateMarketoLead 1700000000000 (TokenGranted (JStr ''tok'') 3599) ua (JStr ''42'')
              ?flds (initial_state\<lparr>calls := [sample_completion lang]\<rparr>) of
         (Inl e, s2) \<Rightarrow> (ServerError e, s2)
       | (Inr mktoResponse, s2) \<Rightarrow> (Success clean_object mktoResponse, s2))"
    by (simp add: webhook_def g w q sample_fields default_to_Some js_of_def)
  have upd: "updateMarketoLead 1700000000000 (TokenGranted (JStr ''tok'') 3599) ua (JStr ''42'')
              ?flds (initial_state\<lparr>calls := [sample_completion lang]\<rparr>)
    = (case ua of
         UpdateUnreachable \<Rightarrow> Inl TypeError
       | UpdateResponse ok None \<Rightarrow> Inl SyntaxError
       | UpdateResponse ok (Some data) \<Rightarrow>
           if \<not> ok \<or> carries_errors data = Inr True then Inl update_error else Inr data,
       sample_final_state lang)"
    by (auto simp: updateMarketoLead_def getMarketoAccessToken_def initial_state_def
        Let_def sample_final_state_def sample_lead_update_def carries_errors_not_Inl
        split: update_reply.splits option.splits sum.splits bool.splits)
  show ?thesis
    unfolding step upd
    by (simp split: update_reply.splits option.splits)
qed


lemma sample_world_update: "sample_world\<lparr>w_update := UpdateResponse True (Some update_ok_body)\<rparr> = sample_world"
  by (simp add: sample_world_def)







lemma system_prompts_differ: "english_system_prompt \<noteq> dutch_system_prompt"
  by (simp add: english_system_prompt_def dutch_system_prompt_def)

lemma buildSystemPrompt_cases:
  "buildSystemPrompt (Some []) = english_system_prompt"
  "buildSystemPrompt (Some ''nl'') = dutch_system_prompt"
  "buildSystemPrompt None = dutch_system_prompt"
  by (simp_all add: buildSystemPrompt_def default_to_def)

lemma system_prompt_openings:
  "\<exists>rest. english_system_prompt
     = ''\<newline>You are an email copywriter for Telenet Business.\<newline>'' @ rest"
  "\<exists>rest. dutch_system_prompt
     = ''\<newline>Je bent een e-mailcopywriter voor Telenet Business.\<newline>'' @ rest"
  by (simp_all add: english_system_prompt_def dutch_system_prompt_def)

lemma buildUserPrompt_empty_language:
  "buildUserPrompt \<lparr>u_sector = a, u_employeeCount = b, u_jobTitle = c, u_language = Some [],
      u_base = d\<rparr>
   = buildUserPrompt \<lparr>u_sector = a, u_employeeCount = b, u_jobTitle = c,
      u_language = Some ''nl'', u_base = d\<rparr>"
  by (simp add: buildUserPrompt_def or_else_def js_of_def default_to_def)

lemma line_here:
  "\<exists>pre post. n @ t @ l @ m @ rest = pre @ n @ t @ l @ m @ post"
  by (rule exI [of _ "[]"], rule exI [of _ rest]) simp

lemma line_later:
  assumes "\<exists>pre post. ys = pre @ f post"
  shows "\<exists>pre post. x @ ys = pre @ f post"
proof -
  from assms obtain pre post where "ys = pre @ f post" by blast
  then have "x @ ys = (x @ pre) @ f post" by simp
  then show ?thesis by blast
qed

lemma buildUserPrompt_language_line:
  "\<exists>pre post. buildUserPrompt a
     = pre @ ''\<newline>'' @ ''- Taal: '' @ or_else (u_language a) ''nl'' @ ''\<newline>'' @ post"
  unfolding buildUserPrompt_def
  by (rule line_here | rule line_later)+

lemma buildUserPrompt_nl_line:
  "or_else (u_language a) ''nl'' = ''nl''
   \<Longrightarrow> \<exists>pre post. buildUserPrompt a = pre @ ''\<newline>- Taal: nl\<newline>'' @ post"
  using buildUserPrompt_language_line [of a] by simp

text \<open>
  C10. Let the body of the request hold \<^verbatim>\<open>language: ""\<close>. The default "nl" of the
  handler is not applied: the language stays empty. Every chat completion the handler
  then sends has the English system prompt, which opens with "You are an email
  copywriter", and not the one for "nl", which opens with "Je bent een
  e-mailcopywriter"; its user prompt is the one for "nl" and holds the line
  "- Taal: nl", since \<^verbatim>\<open>language || 'nl'\<close> is "nl". Every lead update it sends is the
  object whose \<^verbatim>\<open>input\<close> record sets \<^verbatim>\<open>AI_Email_Language__c\<close> to the empty string.
  The chat completion is sent whenever the key is accepted, the lead identifier is
  there and the base content is the built-in one.
\<close>

theorem empty_language_is_kept:
  assumes "r_language req = Some []" and "webhook w req s = (r, s')"
  shows "(default_to (r_language req) ''nl'' = [] \<and> or_else (r_language req) ''nl'' = ''nl'')
       \<and> (\<forall>sys usr. ChatCompletion sys usr \<in> set (sent s s') \<longrightarrow>
             sys = english_system_prompt \<and> sys \<noteq> buildSystemPrompt (Some ''nl'')
             \<and> (\<exists>rest. sys
                   = ''\<newline>You are an email copywriter for Telenet Business.\<newline>'' @ rest)
             \<and> (\<exists>rest. buildSystemPrompt (Some ''nl'')
                   = ''\<newline>Je bent een e-mailcopywriter voor Telenet Business.\<newline>'' @ rest)
             \<and> usr = buildUserPrompt
                 \<lparr>u_sector = r_sector req, u_employeeCount = r_employeeCount req,
                  u_jobTitle = r_jobTitle req, u_language = Some ''nl'', u_base = VC_BASE_V1\<rparr>
             \<and> (\<exists>pre post. usr = pre @ ''\<newline>- Taal: nl\<newline>'' @ post))
       \<and> (\<forall>tok body. LeadUpdate tok body \<in> set (sent s s') \<longrightarrow>
            (\<exists>subject preheader htmlBody.
               body = JObj [(''action'', JStr ''updateOnly''), (''lookupField'', JStr ''id''),
                        (''input'', JArr [JObj
                           [(''id'', js_of (r_marketoLeadId req)),
                            (''AI_Email_Subject__c'', subject),
                            (''AI_Email_Preheader__c'', preheader),
                            (''AI_Email_Body_HTML__c'', htmlBody),
                            (''AI_Email_Language__c'', JStr []),
                            (''AI_Email_Ready__c'', JBool True)]])]))
       \<and> (\<not> (truthy (js_of (WEBHOOK_SECRET w)) \<and> x_webhook_key req \<noteq> WEBHOOK_SECRET w)
            \<and> truthy (js_of (r_marketoLeadId req))
            \<and> default_to (r_baseDataId req) ''VC_BASE_V1'' = ''VC_BASE_V1''
          \<longrightarrow> (\<exists>usr rest. sent s s' = ChatCompletion english_system_prompt usr # rest))"
    (is "?kept \<and> ?prompts \<and> ?field \<and> ?sent")
proof -
  define cc where "cc = ChatCompletion (buildSystemPrompt (Some (default_to (r_language req) ''nl'')))
                 (buildUserPrompt \<lparr>u_sector = r_sector req, u_employeeCount = r_employeeCount req,
                    u_jobTitle = r_jobTitle req,
                    u_language = Some (default_to (r_language req) ''nl''),
                    u_base = VC_BASE_V1\<rparr>)"
  define lu where "lu = (\<lambda>tok a b c.
               LeadUpdate tok (update_body (js_of (r_marketoLeadId req))
                  [(''AI_Email_Subject__c'', a), (''AI_Email_Preheader__c'', b),
                   (''AI_Email_Body_HTML__c'', c),
                   (''AI_Email_Language__c'', JStr (default_to (r_language req) ''nl'')),
                   (''AI_Email_Ready__c'', JBool True)]))"
  have lu': "\<And>tok a b c. lu tok a b c =
               LeadUpdate tok (update_body (js_of (r_marketoLeadId req))
                  [(''AI_Email_Subject__c'', a), (''AI_Email_Preheader__c'', b),
                   (''AI_Email_Body_HTML__c'', c),
                   (''AI_Email_Language__c'', JStr (default_to (r_language req) ''nl'')),
                   (''AI_Email_Ready__c'', JBool True)])"
    by (simp add: lu_def)
  note runs = webhook_runs [OF assms(2) cc_def lu']
  have lang: "default_to (r_language req) ''nl'' = []"
    using assms(1) by (simp add: default_to_def)
  have cc: "cc = ChatCompletion english_system_prompt
                 (buildUserPrompt \<lparr>u_sector = r_sector req, u_employeeCount = r_employeeCount req,
                    u_jobTitle = r_jobTitle req, u_language = Some ''nl'', u_base = VC_BASE_V1\<rparr>)"
    unfolding cc_def lang by (simp add: buildSystemPrompt_cases buildUserPrompt_empty_language)
  have lu: "\<And>tok a b c. lu tok a b c =
               LeadUpdate tok
                 (JObj [(''action'', JStr ''updateOnly''), (''lookupField'', JStr ''id''),
                    (''input'', JArr [JObj
                       [(''id'', js_of (r_marketoLeadId req)),
                        (''AI_Email_Subject__c'', a), (''AI_Email_Preheader__c'', b),
                        (''AI_Email_Body_HTML__c'', c),
                        (''AI_Email_Language__c'', JStr []),
                        (''AI_Email_Ready__c'', JBool True)]])])"
    unfolding lu' lang by (simp add: update_body_five)
  have kept: ?kept
    using assms(1) by (simp add: default_to_def or_else_def js_of_def)
  from webhook_sent [OF assms(2) cc_def lu'] obtain tok a b c where
    shape: "sent s s' \<in> {[], [cc], [cc, TokenExchange], [cc, lu tok a b c],
                           [cc, TokenExchange, lu tok a b c]}"
    by blast
  have line: "\<exists>pre post. buildUserPrompt
                 \<lparr>u_sector = r_sector req, u_employeeCount = r_employeeCount req,
                  u_jobTitle = r_jobTitle req, u_language = Some ''nl'', u_base = VC_BASE_V1\<rparr>
               = pre @ ''\<newline>- Taal: nl\<newline>'' @ post"
    by (rule buildUserPrompt_nl_line) (simp add: or_else_def js_of_def default_to_def)
  have prompts: ?prompts
  proof (intro allI impI)
    fix sys usr
    assume "ChatCompletion sys usr \<in> set (sent s s')"
    with shape have "ChatCompletion sys usr = cc"
      by (auto simp: lu)
    then have "sys = english_system_prompt"
      and "usr = buildUserPrompt
                 \<lparr>u_sector = r_sector req, u_employeeCount = r_employeeCount req,
                  u_jobTitle = r_jobTitle req, u_language = Some ''nl'', u_base = VC_BASE_V1\<rparr>"
      by (simp_all add: cc)
    then show "sys = english_system_prompt \<and> sys \<noteq> buildSystemPrompt (Some ''nl'')
             \<and> (\<exists>rest. sys
                   = ''\<newline>You are an email copywriter for Telenet Business.\<newline>'' @ rest)
             \<and> (\<exists>rest. buildSystemPrompt (Some ''nl'')
                   = ''\<newline>Je bent een e-mailcopywriter voor Telenet Business.\<newline>'' @ rest)
             \<and> usr = buildUserPrompt
                 \<lparr>u_sector = r_sector req, u_employeeCount = r_employeeCount req,
                  u_jobTitle = r_jobTitle req, u_language = Some ''nl'', u_base = VC_BASE_V1\<rparr>
             \<and> (\<exists>pre post. usr = pre @ ''\<newline>- Taal: nl\<newline>'' @ post)"
      using system_prompts_differ system_prompt_openings line
      by (simp add: buildSystemPrompt_cases)
  qed
  have field: ?field
  proof (intro allI impI)
    fix tok' body
    assume "LeadUpdate tok' body \<in> set (sent s s')"
    with shape have "LeadUpdate tok' body = lu tok a b c"
      by (auto simp: cc)
    then show "\<exists>subject preheader htmlBody.
               body = JObj [(''action'', JStr ''updateOnly''), (''lookupField'', JStr ''id''),
                        (''input'', JArr [JObj
                           [(''id'', js_of (r_marketoLeadId req)),
                            (''AI_Email_Subject__c'', subject),
                            (''AI_Email_Preheader__c'', preheader),
                            (''AI_Email_Body_HTML__c'', htmlBody),
                            (''AI_Email_Language__c'', JStr []),
                            (''AI_Email_Ready__c'', JBool True)]])]"
      by (intro exI [of _ a] exI [of _ b] exI [of _ c]) (simp add: lu)
  qed
  have sent: ?sent
  proof (intro impI, elim conjE)
    assume "\<not> (truthy (js_of (WEBHOOK_SECRET w)) \<and> x_webhook_key req \<noteq> WEBHOOK_SECRET w)"
      and "truthy (js_of (r_marketoLeadId req))"
      and "default_to (r_baseDataId req) ''VC_BASE_V1'' = ''VC_BASE_V1''"
    with runs have "\<exists>rest. sent s s' = cc # rest"
      by auto
    then show "\<exists>usr rest. sent s s' = ChatCompletion english_system_prompt usr # rest"
      unfolding cc by blast
  qed
  from kept prompts field sent show ?thesis by blast
qed

lemma sample_request_lang:
  "r_language (sample_request\<lparr>r_language := Some []\<rparr>) = Some []"
  "r_sector (sample_request\<lparr>r_language := Some []\<rparr>) = Some ''Retail''"
  "r_employeeCount (sample_request\<lparr>r_language := Some []\<rparr>) = None"
  "r_jobTitle (sample_request\<lparr>r_language := Some []\<rparr>) = Some ''CFO''"
  "r_marketoLeadId (sample_request\<lparr>r_language := Some []\<rparr>) = Some ''42''"
  by (simp_all add: sample_request_def)

lemma sample_empty_language:
  "webhook sample_world (sample_request\<lparr>r_language := Some []\<rparr>) initial_state
   = (Success clean_object update_ok_body, sample_final_state [])"
  using sample_run [of "[]" "UpdateResponse True (Some update_ok_body)"] sample_bodies
  by (simp add: sample_world_update)

theorem empty_language_is_kept_witness:
  "webhook sample_world (sample_request\<lparr>r_language := Some []\<rparr>) initial_state
     = (Success clean_object update_ok_body, sample_final_state [])
   \<and> sent initial_state (sample_final_state [])
     = [ChatCompletion english_system_prompt
          (buildUserPrompt \<lparr>u_sector = Some ''Retail'', u_employeeCount = None,
             u_jobTitle = Some ''CFO'', u_language = Some ''nl'', u_base = VC_BASE_V1\<rparr>),
        TokenExchange,
        LeadUpdate (JStr ''tok'')
          (JObj [(''action'', JStr ''updateOnly''), (''lookupField'', JStr ''id''),
                 (''input'', JArr [JObj
                    [(''id'', JStr ''42''),
                     (''AI_Email_Subject__c'', JStr ''S''), (''AI_Email_Preheader__c'', JStr ''P''),
                     (''AI_Email_Body_HTML__c'', JStr ''<html></html>''),
                     (''AI_Email_Language__c'', JStr []),
                     (''AI_Email_Ready__c'', JBool True)]])])]
   \<and> english_system_prompt \<noteq> buildSystemPrompt (Some ''nl'')"
proof -
  note inst = empty_language_is_kept [OF sample_request_lang(1) sample_empty_language]
  have trace: "sent initial_state (sample_final_state [])
               = [sample_completion [], TokenExchange, sample_lead_update []]"
    by (simp add: sent_def initial_state_def sample_final_state_def)
  have mem: "ChatCompletion (buildSystemPrompt (Some []))
          (buildUserPrompt \<lparr>u_sector = Some ''Retail'', u_employeeCount = None,
             u_jobTitle = Some ''CFO'', u_language = Some [], u_base = VC_BASE_V1\<rparr>)
        \<in> set (sent initial_state (sample_final_state []))"
    by (simp add: trace sample_completion_def)
  have p: "\<forall>sys usr. ChatCompletion sys usr \<in> set (sent initial_state (sample_final_state []))
      \<longrightarrow> sys = english_system_prompt \<and> sys \<noteq> buildSystemPrompt (Some ''nl'')
          \<and> usr = buildUserPrompt \<lparr>u_sector = Some ''Retail'', u_employeeCount = None,
             u_jobTitle = Some ''CFO'', u_language = Some ''nl'', u_base = VC_BASE_V1\<rparr>"
    using inst [THEN conjunct2, THEN conjunct1] by (simp only: sample_request_lang) blast
  have "buildSystemPrompt (Some []) = english_system_prompt
      \<and> english_system_prompt \<noteq> buildSystemPrompt (Some ''nl'')
      \<and> buildUserPrompt \<lparr>u_sector = Some ''Retail'', u_employeeCount = None,
             u_jobTitle = Some ''CFO'', u_language = Some [], u_base = VC_BASE_V1\<rparr>
        = buildUserPrompt \<lparr>u_sector = Some ''Retail'', u_employeeCount = None,
             u_jobTitle = Some ''CFO'', u_language = Some ''nl'', u_base = VC_BASE_V1\<rparr>"
    using p [rule_format, OF mem] by auto
  then show ?thesis
    using sample_empty_language
    by (simp add: trace sample_completion_def sample_lead_update_def update_body_five)
qed

end
